theory Spec2Isabelle
  imports Main
begin

section \<open>Schedule resolution and override model of chronos\<close>

text \<open>
  A shallow embedding of the timetable route handlers:
  \<^item> \<^verbatim>\<open>routes/timetable/movedLesson/index.ts\<close> (moved lessons),
  \<^item> \<^verbatim>\<open>routes/timetable/substitution/index.ts\<close> (substitutions),
  \<^item> \<^verbatim>\<open>routes/timetable/lesson/index.ts\<close> (lesson enrichment),
  \<^item> the timetable handlers (\<^verbatim>\<open>getLatestValidTimetable\<close>).

  The relational store is a record of tables, each table a list of rows. A handler that
  only reads is a function from the store to a result; a handler that writes is a function
  from the store to a result and the store it leaves behind. A thrown exception is the
  \<open>Inl\<close> of a sum. Each definition embeds the handler function itself, that is the last
  argument of \<^verbatim>\<open>createHandlers\<close>, run after the authentication and authorization middleware
  admitted the request.

  The schema of the store is not among the sources. A table is a list of rows and carries no
  key or foreign-key constraint; the one effect of the schema in the model is the cascade
  that deletes the link rows of a deleted override, which the source relies on. The
  \<^verbatim>\<open>date\<close> of an override is never null. The query builder throws on an insert of no rows
  (\<^verbatim>\<open>.values([])\<close>) and on an update that sets no column (\<^verbatim>\<open>.set\<close> of an object whose
  values are all undefined), before any statement reaches the store: in the model these calls
  throw always. Any other statement the store or the query builder would reject is a storage
  call that fails (see below). A query without \<^verbatim>\<open>ORDER BY\<close> returns its rows in the order
  of its joins, and an aggregate lists its values in the order of the rows.
\<close>

subsection \<open>Calendar dates and the clock\<close>

text \<open>
  A calendar date (a value of a \<^verbatim>\<open>date\<close> column, or a \<^verbatim>\<open>YYYY-MM-DD\<close> string) is
  represented by its day number, the days since 1970-01-01; the order of calendar dates is
  the order of day numbers, and the previous day is the day number minus one.

  A JavaScript \<^verbatim>\<open>Date\<close> is an instant in milliseconds since the epoch. The process runs in
  a time zone with a fixed offset, \<open>tzOffsetMin\<close> minutes east of UTC.
\<close>

type_synonym date = int

record clock =
  nowMs :: int
  tzOffsetMin :: int

definition msPerDay :: int where
  "msPerDay = 86400000"

definition msPerMinute :: int where
  "msPerMinute = 60000"

text \<open>\<^verbatim>\<open>d.toISOString().slice(0, 10)\<close> and \<^verbatim>\<open>d.toISOString().split('T')[0]\<close>: the UTC date
  of an instant.\<close>

definition isoDate :: "int \<Rightarrow> date" where
  "isoDate t = t div msPerDay"

text \<open>The calendar date of an instant in the process's time zone.\<close>

definition localDate :: "clock \<Rightarrow> int \<Rightarrow> date" where
  "localDate clk t = (t + tzOffsetMin clk * msPerMinute) div msPerDay"

text \<open>\<^verbatim>\<open>d.setHours(0, 0, 0, 0)\<close>: the instant of local midnight of the local date of \<open>t\<close>.\<close>

definition setHoursMidnight :: "clock \<Rightarrow> int \<Rightarrow> int" where
  "setHoursMidnight clk t = localDate clk t * msPerDay - tzOffsetMin clk * msPerMinute"

text \<open>\<^verbatim>\<open>dateToYYYYMMDD\<close>: \<^verbatim>\<open>date.toLocaleDateString('en-CA', ...)\<close>, the local date.\<close>

definition dateToYYYYMMDD :: "clock \<Rightarrow> int \<Rightarrow> date" where
  "dateToYYYYMMDD clk t = localDate clk t"

subsection \<open>Exceptions\<close>

datatype StatusCode = BAD_REQUEST | NOT_FOUND | INTERNAL_SERVER_ERROR

text \<open>
  An exception is an \<^verbatim>\<open>HTTPException\<close> with its status and message, or an error raised
  by the storage layer (the query builder or the database).
\<close>

datatype exn = HTTPException StatusCode string | StorageError

subsection \<open>Storage calls that may fail\<close>

text \<open>
  Every call of the storage layer can fail: the connection is lost, a constraint of the
  schema rejects the statement, the query builder rejects its arguments. Which calls fail
  is an input of the model, a predicate on the operation and the table it addresses.
\<close>

datatype dbop = Select | Count | Insert | Update | Delete

datatype dbtable =
  TPeriod | TDayDefinition | TClassroom | TTeacher | TSubject | TCohort | TLesson
  | TMovedLesson | TMovedLessonLessonMTM | TSubstitution | TSubstitutionLessonMTM
  | TTimetable

type_synonym faults = "dbop \<Rightarrow> dbtable \<Rightarrow> bool"

definition noFaults :: faults where
  "noFaults = (\<lambda>_ _. False)"

subsection \<open>The store\<close>

text \<open>
  The rows of the schema, with the columns the handlers read and write. The reference
  entities carry the columns the enrichment projects.
\<close>

record period =
  period_id :: string
  startTime :: string
  endTime :: string
  period_no :: int

record dayDefinition =
  day_id :: string
  day_name :: string
  day_short :: string

record classroom =
  classroom_id :: string
  classroom_name :: string
  classroom_short :: string

record teacher =
  teacher_id :: string
  firstName :: string
  lastName :: string
  teacher_short :: string

record subject =
  subject_id :: string
  subject_name :: string
  subject_short :: string

record cohort =
  cohort_id :: string
  cohort_name :: string

text \<open>The array columns \<^verbatim>\<open>teacherIds\<close> and \<^verbatim>\<open>classroomIds\<close> may hold no array
  (\<open>None\<close>): the code tests them with \<^verbatim>\<open>Array.isArray\<close>.\<close>

record lesson =
  lesson_id :: string
  subjectId :: string
  dayDefinitionId :: string
  periodId :: string
  teacherIds :: "string list option"
  classroomIds :: "string list option"
  weeksDefinitionId :: string
  termDefinitionId :: string
  periodsPerWeek :: int

record lessonCohort =
  lc_lessonId :: string
  lc_cohortId :: string

record movedLesson =
  ml_id :: string
  ml_date :: date
  startingPeriod :: "string option"
  startingDay :: "string option"
  room :: "string option"

record movedLessonLesson =
  mll_lessonId :: string
  mll_movedLessonId :: string

record substitution =
  sub_id :: string
  sub_date :: date
  substituter :: "string option"

record substitutionLesson =
  sl_lessonId :: string
  sl_substitutionId :: string

record timetable =
  tt_id :: string
  tt_name :: string
  validFrom :: date

record db =
  periodT :: "period list"
  dayDefinitionT :: "dayDefinition list"
  classroomT :: "classroom list"
  teacherT :: "teacher list"
  subjectT :: "subject list"
  cohortT :: "cohort list"
  lessonT :: "lesson list"
  lessonCohortMTM :: "lessonCohort list"
  movedLessonT :: "movedLesson list"
  movedLessonLessonMTM :: "movedLessonLesson list"
  substitutionT :: "substitution list"
  substitutionLessonMTM :: "substitutionLesson list"
  timetableT :: "timetable list"

subsection \<open>Queries\<close>

text \<open>
  \<^verbatim>\<open>leftJoin(t, on)\<close>: every row of the left side is kept; it is paired with each row of
  \<open>t\<close> that satisfies the condition, or once with null when none does.
\<close>

definition leftJoin :: "('b \<Rightarrow> bool) \<Rightarrow> 'b list \<Rightarrow> 'b option list" where
  "leftJoin on rows = (case filter on rows of [] \<Rightarrow> [None] | ys \<Rightarrow> map Some ys)"

text \<open>\<^verbatim>\<open>eq(a, b)\<close> on a nullable left column: null equals nothing.\<close>

definition eqCol :: "'a option \<Rightarrow> 'a \<Rightarrow> bool" where
  "eqCol a b = (a = Some b)"

text \<open>
  \<^verbatim>\<open>COALESCE(ARRAY_AGG(x) FILTER (WHERE x IS NOT NULL), ARRAY[]::text[])\<close> over the rows
  of one group: the non-null values, one per row, in the order of the rows; with
  \<^verbatim>\<open>DISTINCT\<close>, each value once.
\<close>

definition arrayAgg :: "'a option list \<Rightarrow> 'a list" where
  "arrayAgg xs = concat (map (\<lambda>x. case x of None \<Rightarrow> [] | Some v \<Rightarrow> [v]) xs)"

definition arrayAggDistinct :: "'a option list \<Rightarrow> 'a list" where
  "arrayAggDistinct xs = remdups (arrayAgg xs)"

text \<open>\<^verbatim>\<open>groupBy\<close>: the rows are partitioned by their key; one group per distinct key.\<close>

definition groupBy :: "('r \<Rightarrow> 'k) \<Rightarrow> 'r list \<Rightarrow> 'r list list" where
  "groupBy key rows = map (\<lambda>k. filter (\<lambda>r. key r = k) rows) (remdups (map key rows))"

subsection \<open>Timetable versions\<close>

datatype latestData = Message string | Row timetable

text \<open>
  The query of \<^verbatim>\<open>getLatestValidTimetable\<close>:
  \<^verbatim>\<open>select().from(timetable).where(gte(timetable.validFrom, today))
     .orderBy(desc(timetable.validFrom)).limit(1)\<close>.
\<close>

definition orderByDesc :: "('a \<Rightarrow> int) \<Rightarrow> 'a list \<Rightarrow> 'a list" where
  "orderByDesc key rows = sort_key (\<lambda>r. - key r) rows"

definition latestValidQuery :: "date \<Rightarrow> timetable list \<Rightarrow> timetable list" where
  "latestValidQuery today rows =
     take 1 (orderByDesc validFrom (filter (\<lambda>t. today \<le> validFrom t) rows))"

definition getLatestValidTimetable ::
  "faults \<Rightarrow> clock \<Rightarrow> db \<Rightarrow> exn + latestData" where
  "getLatestValidTimetable flt clk s =
     (let today = dateToYYYYMMDD clk (nowMs clk) in
      if flt Select TTimetable
      then Inl (HTTPException INTERNAL_SERVER_ERROR ''Failed to get latest valid template.'')
      else (case latestValidQuery today (timetableT s) of
              [] \<Rightarrow> Inr (Message ''No valid timetable found.'')
            | latestValidTimetable # _ \<Rightarrow> Inr (Row latestValidTimetable)))"

subsection \<open>Reading moved lessons\<close>

text \<open>
  The four read handlers run one query each: \<^verbatim>\<open>movedLesson\<close> left-joined with its
  period, day definition, classroom and link rows (the cohort variants also with the linked
  lesson and that lesson's cohort rows), grouped by
  \<^verbatim>\<open>(movedLesson.id, period.id, dayDefinition.id, classroom.id)\<close>, the lesson ids of a
  group aggregated into \<^verbatim>\<open>lessons\<close>.
\<close>

type_synonym movedJoin =
  "movedLesson \<times> period option \<times> dayDefinition option \<times> classroom option
   \<times> movedLessonLesson option"

record movedLessonView =
  v_classroom :: "classroom option"
  v_dayDefinition :: "dayDefinition option"
  v_lessons :: "string list"
  v_movedLesson :: movedLesson
  v_period :: "period option"

definition movedJoinRows :: "db \<Rightarrow> movedJoin list" where
  "movedJoinRows s =
     [(m, p, d, c, l).
        m \<leftarrow> movedLessonT s,
        p \<leftarrow> leftJoin (\<lambda>p. eqCol (startingPeriod m) (period_id p)) (periodT s),
        d \<leftarrow> leftJoin (\<lambda>d. eqCol (startingDay m) (day_id d)) (dayDefinitionT s),
        c \<leftarrow> leftJoin (\<lambda>c. eqCol (room m) (classroom_id c)) (classroomT s),
        l \<leftarrow> leftJoin (\<lambda>l. ml_id m = mll_movedLessonId l) (movedLessonLessonMTM s)]"

definition movedCohortJoinRows ::
  "db \<Rightarrow> (movedJoin \<times> lesson option \<times> lessonCohort option) list" where
  "movedCohortJoinRows s =
     [((m, p, d, c, l), le, lc).
        (m, p, d, c, l) \<leftarrow> movedJoinRows s,
        le \<leftarrow> leftJoin (\<lambda>le. eqCol (map_option mll_lessonId l) (lesson_id le)) (lessonT s),
        lc \<leftarrow> leftJoin (\<lambda>lc. eqCol (map_option lesson_id le) (lc_lessonId lc))
               (lessonCohortMTM s)]"

definition movedKey ::
  "movedJoin \<Rightarrow> string \<times> string option \<times> string option \<times> string option" where
  "movedKey r =
     (case r of (m, p, d, c, l) \<Rightarrow>
        (ml_id m, map_option period_id p, map_option day_id d, map_option classroom_id c))"

definition movedLinkId :: "movedJoin \<Rightarrow> string option" where
  "movedLinkId r = (case r of (m, p, d, c, l) \<Rightarrow> map_option mll_lessonId l)"

text \<open>One result row per group; \<open>agg\<close> is the aggregate of the \<^verbatim>\<open>lessons\<close> column.\<close>

definition movedView ::
  "(string option list \<Rightarrow> string list) \<Rightarrow> movedJoin list \<Rightarrow> movedLessonView list" where
  "movedView agg grp =
     (case grp of
        [] \<Rightarrow> []
      | (m, p, d, c, l) # _ \<Rightarrow>
          [\<lparr>v_classroom = c, v_dayDefinition = d, v_lessons = agg (map movedLinkId grp),
            v_movedLesson = m, v_period = p\<rparr>])"

definition movedViews ::
  "(string option list \<Rightarrow> string list) \<Rightarrow> movedJoin list \<Rightarrow> movedLessonView list" where
  "movedViews agg rows = concat (map (movedView agg) (groupBy movedKey rows))"

text \<open>\<^verbatim>\<open>!cohortId\<close>, \<^verbatim>\<open>!id\<close> on a route parameter (a string or undefined).\<close>

definition missingParam :: "string option \<Rightarrow> bool" where
  "missingParam p = (case p of None \<Rightarrow> True | Some v \<Rightarrow> v = [])"

definition getAllMovedLessons :: "faults \<Rightarrow> db \<Rightarrow> exn + movedLessonView list" where
  "getAllMovedLessons flt s =
     (if flt Select TMovedLesson
      then Inl (HTTPException INTERNAL_SERVER_ERROR ''Failed to fetch all moved lessons'')
      else Inr (movedViews arrayAgg (movedJoinRows s)))"

definition getRelevantMovedLessons ::
  "faults \<Rightarrow> clock \<Rightarrow> db \<Rightarrow> exn + movedLessonView list" where
  "getRelevantMovedLessons flt clk s =
     (let today = setHoursMidnight clk (nowMs clk);
          todayStr = isoDate today in
      if flt Select TMovedLesson
      then Inl (HTTPException INTERNAL_SERVER_ERROR ''Failed to fetch relevant moved lessons'')
      else Inr (movedViews arrayAgg
                  (filter (\<lambda>(m, p, d, c, l). todayStr \<le> ml_date m) (movedJoinRows s))))"

text \<open>In the cohort variants the check of the parameter stands inside the \<^verbatim>\<open>try\<close> block:
  its exception reaches the \<^verbatim>\<open>catch\<close> like any other. Past the check the parameter is a
  string \<open>Some cid\<close>, and \<^verbatim>\<open>eq(lessonCohortMTM.cohortId, cohortId)\<close> holds of a joined row
  whose cohort column is that string (a null column equals nothing).\<close>

definition getMovedLessonsForCohort ::
  "faults \<Rightarrow> string option \<Rightarrow> db \<Rightarrow> exn + movedLessonView list" where
  "getMovedLessonsForCohort flt cohortId s =
     (if missingParam cohortId \<or> flt Select TMovedLesson
      then Inl (HTTPException INTERNAL_SERVER_ERROR ''Failed to fetch moved lessons for cohort'')
      else Inr (movedViews arrayAggDistinct
                  (map fst (filter (\<lambda>(r, le, lc). map_option lc_cohortId lc = cohortId)
                              (movedCohortJoinRows s)))))"

definition getRelevantMovedLessonsForCohort ::
  "faults \<Rightarrow> clock \<Rightarrow> string option \<Rightarrow> db \<Rightarrow> exn + movedLessonView list" where
  "getRelevantMovedLessonsForCohort flt clk cohortId s =
     (let today = setHoursMidnight clk (nowMs clk);
          todayStr = isoDate today in
      if missingParam cohortId \<or> flt Select TMovedLesson
      then Inl (HTTPException INTERNAL_SERVER_ERROR
                  ''Failed to fetch relevant moved lessons for cohort'')
      else Inr (movedViews arrayAggDistinct
                  (map fst (filter (\<lambda>((m, p, d, c, l), le, lc).
                                      map_option lc_cohortId lc = cohortId
                                      \<and> todayStr \<le> ml_date m)
                              (movedCohortJoinRows s)))))"

subsection \<open>Reading substitutions\<close>

type_synonym subJoin = "substitution \<times> teacher option \<times> substitutionLesson option"

record substitutionView =
  sv_lessons :: "string list"
  sv_substitution :: substitution
  sv_teacher :: "teacher option"

definition subJoinRows :: "db \<Rightarrow> subJoin list" where
  "subJoinRows s =
     [(sb, t, l).
        sb \<leftarrow> substitutionT s,
        t \<leftarrow> leftJoin (\<lambda>t. eqCol (substituter sb) (teacher_id t)) (teacherT s),
        l \<leftarrow> leftJoin (\<lambda>l. sub_id sb = sl_substitutionId l) (substitutionLessonMTM s)]"

definition subCohortJoinRows ::
  "db \<Rightarrow> (subJoin \<times> lesson option \<times> lessonCohort option \<times> cohort option) list" where
  "subCohortJoinRows s =
     [((sb, t, l), le, lc, co).
        (sb, t, l) \<leftarrow> subJoinRows s,
        le \<leftarrow> leftJoin (\<lambda>le. eqCol (map_option sl_lessonId l) (lesson_id le)) (lessonT s),
        lc \<leftarrow> leftJoin (\<lambda>lc. eqCol (map_option lesson_id le) (lc_lessonId lc))
               (lessonCohortMTM s),
        co \<leftarrow> leftJoin (\<lambda>co. eqCol (map_option lc_cohortId lc) (cohort_id co)) (cohortT s)]"

definition subKey :: "subJoin \<Rightarrow> string \<times> string option" where
  "subKey r = (case r of (sb, t, l) \<Rightarrow> (sub_id sb, map_option teacher_id t))"

definition subLinkId :: "subJoin \<Rightarrow> string option" where
  "subLinkId r = (case r of (sb, t, l) \<Rightarrow> map_option sl_lessonId l)"

definition subView :: "subJoin list \<Rightarrow> substitutionView list" where
  "subView grp =
     (case grp of
        [] \<Rightarrow> []
      | (sb, t, l) # _ \<Rightarrow>
          [\<lparr>sv_lessons = arrayAgg (map subLinkId grp), sv_substitution = sb, sv_teacher = t\<rparr>])"

definition subViews :: "subJoin list \<Rightarrow> substitutionView list" where
  "subViews rows = concat (map subView (groupBy subKey rows))"

definition getAllSubstitutions :: "faults \<Rightarrow> db \<Rightarrow> exn + substitutionView list" where
  "getAllSubstitutions flt s =
     (if flt Select TSubstitution
      then Inl (HTTPException INTERNAL_SERVER_ERROR ''Failed to fetch all substitutions'')
      else Inr (subViews (subJoinRows s)))"

definition getRelevantSubstitutions ::
  "faults \<Rightarrow> clock \<Rightarrow> db \<Rightarrow> exn + substitutionView list" where
  "getRelevantSubstitutions flt clk s =
     (let today = isoDate (nowMs clk) in
      if flt Select TSubstitution
      then Inl (HTTPException INTERNAL_SERVER_ERROR ''Failed to fetch substitutions'')
      else Inr (subViews (filter (\<lambda>(sb, t, l). today \<le> sub_date sb) (subJoinRows s))))"

text \<open>Here the check of the parameter stands before the \<^verbatim>\<open>try\<close> block. The data of the
  response is the pair of \<^verbatim>\<open>cohortId\<close> and \<^verbatim>\<open>substitutions\<close>.\<close>

definition getRelevantSubstitutionsForCohort ::
  "faults \<Rightarrow> clock \<Rightarrow> string option \<Rightarrow> db \<Rightarrow> exn + string \<times> substitutionView list" where
  "getRelevantSubstitutionsForCohort flt clk cohortId s =
     (case cohortId of
        None \<Rightarrow> Inl (HTTPException BAD_REQUEST ''Cohort ID is required'')
      | Some cid \<Rightarrow>
          if cid = [] then Inl (HTTPException BAD_REQUEST ''Cohort ID is required'')
          else
            let today = isoDate (nowMs clk) in
            if flt Select TSubstitution
            then Inl (HTTPException INTERNAL_SERVER_ERROR
                        ''Failed to fetch substitutions for cohort'')
            else Inr (cid,
                   subViews
                     (map fst (filter (\<lambda>((sb, t, l), le, lc, co).
                                         today \<le> sub_date sb
                                         \<and> eqCol (map_option cohort_id co) cid)
                                 (subCohortJoinRows s)))))"

subsection \<open>Lessons of a cohort, enriched\<close>

text \<open>The projections \<^verbatim>\<open>{id, name, short}\<close> and
  \<^verbatim>\<open>{id, startTime, endTime, period}\<close>.\<close>

record named =
  n_id :: string
  n_name :: string
  n_short :: string

record periodProj =
  pp_id :: string
  pp_startTime :: string
  pp_endTime :: string
  pp_period :: int

record enrichedLesson =
  e_id :: string
  e_subject :: "named option"
  e_teachers :: "named list"
  e_classrooms :: "named list"
  e_day :: "dayDefinition option"
  e_period :: "periodProj option"
  e_weeksDefinitionId :: string
  e_termDefinitionId :: string
  e_periodsPerWeek :: int

text \<open>\<^verbatim>\<open>Array.isArray(xs) ? xs : []\<close> on an array column.\<close>

definition arrayOrEmpty :: "'a list option \<Rightarrow> 'a list" where
  "arrayOrEmpty xs = (case xs of None \<Rightarrow> [] | Some ys \<Rightarrow> ys)"

text \<open>\<^verbatim>\<open>select().from(t).where(inArray(t.id, ids))\<close>.\<close>

definition selectIn :: "('r \<Rightarrow> string) \<Rightarrow> string list \<Rightarrow> 'r list \<Rightarrow> 'r list" where
  "selectIn key ids rows = filter (\<lambda>r. key r \<in> set ids) rows"

text \<open>\<^verbatim>\<open>new Map(rows.map((r) => [r.id, r]))\<close>: of two rows with one id the later one stays.\<close>

definition mkMap :: "('r \<Rightarrow> string) \<Rightarrow> 'r list \<Rightarrow> (string \<rightharpoonup> 'r)" where
  "mkMap key rows = map_of (rev (map (\<lambda>r. (key r, r)) rows))"

text \<open>\<^verbatim>\<open>ids.map((id) => m.get(id)).filter(Boolean)\<close>.\<close>

definition lookupAll :: "(string \<rightharpoonup> 'r) \<Rightarrow> string list \<Rightarrow> 'r list" where
  "lookupAll m ids = concat (map (\<lambda>i. case m i of None \<Rightarrow> [] | Some r \<Rightarrow> [r]) ids)"

definition projSubject :: "subject \<Rightarrow> named" where
  "projSubject sj = \<lparr>n_id = subject_id sj, n_name = subject_name sj, n_short = subject_short sj\<rparr>"

definition projTeacher :: "teacher \<Rightarrow> named" where
  "projTeacher t =
     \<lparr>n_id = teacher_id t, n_name = firstName t @ '' '' @ lastName t, n_short = teacher_short t\<rparr>"

definition projClassroom :: "classroom \<Rightarrow> named" where
  "projClassroom cr =
     \<lparr>n_id = classroom_id cr, n_name = classroom_name cr, n_short = classroom_short cr\<rparr>"

definition projPeriod :: "period \<Rightarrow> periodProj" where
  "projPeriod p =
     \<lparr>pp_id = period_id p, pp_startTime = startTime p, pp_endTime = endTime p,
      pp_period = period_no p\<rparr>"

definition enrichLesson ::
  "(string \<rightharpoonup> subject) \<Rightarrow> (string \<rightharpoonup> dayDefinition) \<Rightarrow> (string \<rightharpoonup> period)
   \<Rightarrow> (string \<rightharpoonup> teacher) \<Rightarrow> (string \<rightharpoonup> classroom) \<Rightarrow> lesson \<Rightarrow> enrichedLesson" where
  "enrichLesson subjMap dayMap periodMap teacherMap classroomMap l =
     (let tIds = arrayOrEmpty (teacherIds l);
          cIds = arrayOrEmpty (classroomIds l) in
      \<lparr>e_id = lesson_id l,
       e_subject = map_option projSubject (subjMap (subjectId l)),
       e_teachers = map projTeacher (lookupAll teacherMap tIds),
       e_classrooms = map projClassroom (lookupAll classroomMap cIds),
       e_day = dayMap (dayDefinitionId l),
       e_period = map_option projPeriod (periodMap (periodId l)),
       e_weeksDefinitionId = weeksDefinitionId l,
       e_termDefinitionId = termDefinitionId l,
       e_periodsPerWeek = periodsPerWeek l\<rparr>)"

text \<open>The lessons of a cohort: \<^verbatim>\<open>lesson\<close> inner-joined with \<^verbatim>\<open>lessonCohortMTM\<close>.\<close>

definition cohortLessons :: "string \<Rightarrow> db \<Rightarrow> lesson list" where
  "cohortLessons cid s =
     [le. le \<leftarrow> lessonT s, lc \<leftarrow> lessonCohortMTM s,
          lesson_id le = lc_lessonId lc \<and> lc_cohortId lc = cid]"

text \<open>The enrichment of a batch: the ids of the batch are collected, each kind is looked
  up once, and every lesson is projected on its own.\<close>

definition enrichBatch :: "db \<Rightarrow> lesson list \<Rightarrow> enrichedLesson list" where
  "enrichBatch s lessons =
     (let subjectIds = remdups (map subjectId lessons);
          dayIds = remdups (map dayDefinitionId lessons);
          periodIds = remdups (map periodId lessons);
          teacherIdsAll = remdups (concat (map (\<lambda>l. arrayOrEmpty (teacherIds l)) lessons));
          classroomIdsAll = remdups (concat (map (\<lambda>l. arrayOrEmpty (classroomIds l)) lessons));
          subjects = selectIn subject_id subjectIds (subjectT s);
          days = selectIn day_id dayIds (dayDefinitionT s);
          periods = selectIn period_id periodIds (periodT s);
          teachers = (if teacherIdsAll = [] then []
                      else selectIn teacher_id teacherIdsAll (teacherT s));
          classrooms = (if classroomIdsAll = [] then []
                        else selectIn classroom_id classroomIdsAll (classroomT s))
      in map (enrichLesson (mkMap subject_id subjects) (mkMap day_id days)
                (mkMap period_id periods) (mkMap teacher_id teachers)
                (mkMap classroom_id classrooms)) lessons)"

text \<open>The handler has no \<^verbatim>\<open>try\<close> block: an error of the storage layer leaves it as it
  is.\<close>

definition getLessonsForCohort ::
  "faults \<Rightarrow> string option \<Rightarrow> db \<Rightarrow> exn + enrichedLesson list" where
  "getLessonsForCohort flt cohortId s =
     (case cohortId of
        None \<Rightarrow> Inl (HTTPException BAD_REQUEST ''Missing cohort_id'')
      | Some cid \<Rightarrow>
          if cid = [] then Inl (HTTPException BAD_REQUEST ''Missing cohort_id'')
          else if flt Select TCohort then Inl StorageError
          else (case take 1 (filter (\<lambda>co. cohort_id co = cid) (cohortT s)) of
                  [] \<Rightarrow> Inl (HTTPException NOT_FOUND ''Cohort not found'')
                | existingCohort # _ \<Rightarrow>
                    if flt Select TLesson then Inl StorageError
                    else
                      let lessons = cohortLessons cid s in
                      if lessons = [] then Inr []
                      else if flt Select TSubject \<or> flt Select TDayDefinition
                              \<or> flt Select TPeriod
                              \<or> (flt Select TTeacher \<and> concat (map (\<lambda>l. arrayOrEmpty (teacherIds l)) lessons) \<noteq> [])
                              \<or> (flt Select TClassroom \<and> concat (map (\<lambda>l. arrayOrEmpty (classroomIds l)) lessons) \<noteq> [])
                      then Inl StorageError
                      else Inr (enrichBatch s lessons)))"

subsection \<open>Request bodies\<close>

text \<open>
  A moved-lesson body is what \<^verbatim>\<open>c.req.json()\<close> returns, untyped: each field is any JSON
  value or undefined, and the handlers test the values themselves.
\<close>

datatype json =
  JUndefined | JNull | JBool bool | JNum int | JStr string | JArr "json list"
  | JObj "(string \<times> json) list"

text \<open>JavaScript truthiness: \<^verbatim>\<open>undefined\<close>, \<^verbatim>\<open>null\<close>, \<^verbatim>\<open>false\<close>, \<^verbatim>\<open>0\<close>
  and the empty string are falsy; every array and object is truthy, the empty array as well.\<close>

fun truthy :: "json \<Rightarrow> bool" where
  "truthy JUndefined = False"
| "truthy JNull = False"
| "truthy (JBool b) = b"
| "truthy (JNum n) = (n \<noteq> 0)"
| "truthy (JStr v) = (v \<noteq> [])"
| "truthy (JArr xs) = True"
| "truthy (JObj kvs) = True"

record movedBody =
  b_startingPeriod :: json
  b_startingDay :: json
  b_room :: json
  b_date :: json
  b_lessonIds :: json

text \<open>
  A substitution body is cast to
  \<^verbatim>\<open>{ date: string; lessonIds: string[]; substituter?: string }\<close> (every field optional
  in the update): a field holds a value of its type, or is missing (\<open>None\<close>).
\<close>

record subBody =
  sb_date :: "string option"
  sb_lessonIds :: "string list option"
  sb_substituter :: "string option"

text \<open>
  What the handlers take from outside the store: which storage calls fail, how the store
  reads a text as a \<^verbatim>\<open>date\<close> (\<open>None\<close> when it rejects the text), and whether
  \<^verbatim>\<open>new Date(text)\<close> is a valid date.
\<close>

record env =
  fault :: faults
  pgDate :: "string \<Rightarrow> date option"
  jsDateValid :: "string \<Rightarrow> bool"

subsection \<open>Actions on the store\<close>

text \<open>
  A handler that writes is an action: from the store to its outcome (an exception or a
  value) and the store it leaves. \<open>catchA\<close> is \<^verbatim>\<open>try { ... } catch (error) { ... }\<close>;
  \<open>transaction\<close> is \<^verbatim>\<open>db.transaction(async (tx) => ...)\<close>, which commits when its body
  returns and rolls the store back when its body throws.
\<close>

type_synonym 'a action = "db \<Rightarrow> (exn + 'a) \<times> db"

definition retA :: "'a \<Rightarrow> 'a action" where
  "retA x = (\<lambda>s. (Inr x, s))"

definition throwA :: "exn \<Rightarrow> 'a action" where
  "throwA e = (\<lambda>s. (Inl e, s))"

definition bindA :: "'a action \<Rightarrow> ('a \<Rightarrow> 'b action) \<Rightarrow> 'b action" where
  "bindA m f = (\<lambda>s. case m s of (Inl e, s') \<Rightarrow> (Inl e, s') | (Inr x, s') \<Rightarrow> f x s')"

definition catchA :: "'a action \<Rightarrow> (exn \<Rightarrow> 'a action) \<Rightarrow> 'a action" where
  "catchA m h = (\<lambda>s. case m s of (Inl e, s') \<Rightarrow> h e s' | (Inr x, s') \<Rightarrow> (Inr x, s'))"

definition transaction :: "'a action \<Rightarrow> 'a action" where
  "transaction m = (\<lambda>s. case m s of (Inl e, s') \<Rightarrow> (Inl e, s) | (Inr x, s') \<Rightarrow> (Inr x, s'))"

definition whenA :: "bool \<Rightarrow> unit action \<Rightarrow> unit action" where
  "whenA c m = (if c then m else retA ())"

text \<open>A storage call that reads, and one that writes and returns rows.\<close>

definition query :: "env \<Rightarrow> dbop \<Rightarrow> dbtable \<Rightarrow> (db \<Rightarrow> 'a) \<Rightarrow> 'a action" where
  "query e op tbl f = (\<lambda>s. if fault e op tbl then (Inl StorageError, s) else (Inr (f s), s))"

definition exec :: "env \<Rightarrow> dbop \<Rightarrow> dbtable \<Rightarrow> (db \<Rightarrow> 'a \<times> db) \<Rightarrow> 'a action" where
  "exec e op tbl f =
     (\<lambda>s. if fault e op tbl then (Inl StorageError, s)
          else (case f s of (x, s') \<Rightarrow> (Inr x, s')))"

subsection \<open>Text of the messages\<close>

text \<open>The decimal digit of a number below ten.\<close>

definition showDigit :: "nat \<Rightarrow> char" where
  "showDigit n = ''0123456789'' ! n"

fun showNat :: "nat \<Rightarrow> string" where
  "showNat n = (if n < 10 then [showDigit n] else showNat (n div 10) @ [showDigit (n mod 10)])"

text \<open>\<^verbatim>\<open>xs.join(', ')\<close>.\<close>

fun joinComma :: "string list \<Rightarrow> string" where
  "joinComma [] = []"
| "joinComma [x] = x"
| "joinComma (x # y # ys) = x @ '', '' @ joinComma (y # ys)"

declare showNat.simps [simp del]

subsection \<open>Validation of a moved lesson's references\<close>

definition ensurePeriodExists :: "env \<Rightarrow> string \<Rightarrow> unit action" where
  "ensurePeriodExists e pId =
     bindA (query e Select TPeriod (\<lambda>s. filter (\<lambda>p. period_id p = pId) (periodT s)))
       (\<lambda>found. case found of
            [] \<Rightarrow> throwA (HTTPException BAD_REQUEST ''Invalid starting period provided'')
          | existingPeriod # _ \<Rightarrow> retA ())"

definition ensureDayDefinitionExists :: "env \<Rightarrow> string \<Rightarrow> unit action" where
  "ensureDayDefinitionExists e dayId =
     bindA (query e Select TDayDefinition (\<lambda>s. filter (\<lambda>d. day_id d = dayId) (dayDefinitionT s)))
       (\<lambda>found. case found of
            [] \<Rightarrow> throwA (HTTPException BAD_REQUEST ''Invalid starting day provided'')
          | existingDay # _ \<Rightarrow> retA ())"

definition ensureClassroomExists :: "env \<Rightarrow> string \<Rightarrow> unit action" where
  "ensureClassroomExists e classroomId =
     bindA (query e Select TClassroom
              (\<lambda>s. filter (\<lambda>c. classroom_id c = classroomId) (classroomT s)))
       (\<lambda>found. case found of
            [] \<Rightarrow> throwA (HTTPException BAD_REQUEST ''Invalid classroom provided'')
          | existingRoom # _ \<Rightarrow> retA ())"

definition ensureLessonsExist :: "env \<Rightarrow> string list \<Rightarrow> unit action" where
  "ensureLessonsExist e lessonIds =
     bindA (query e Select TLesson (\<lambda>s. selectIn lesson_id lessonIds (lessonT s)))
       (\<lambda>lessonRecords.
          let foundLessonIds = set (map lesson_id lessonRecords);
              missingLessonIds = filter (\<lambda>lessonId. lessonId \<notin> foundLessonIds) lessonIds in
          if length missingLessonIds > 0
          then throwA (HTTPException BAD_REQUEST
                         (''Invalid lesson ids provided: '' @ joinComma missingLessonIds))
          else retA ())"

definition normalizeOptionalString :: "json \<Rightarrow> string \<Rightarrow> exn + string option" where
  "normalizeOptionalString v label =
     (case v of
        JUndefined \<Rightarrow> Inr None
      | JNull \<Rightarrow> Inr None
      | JStr x \<Rightarrow> Inr (Some x)
      | _ \<Rightarrow> Inl (HTTPException BAD_REQUEST (label @ '' must be a string'')))"

text \<open>The strings of an array of JSON values, when every entry is a string.\<close>

fun stringEntries :: "json list \<Rightarrow> string list option" where
  "stringEntries [] = Some []"
| "stringEntries (JStr x # vs) = map_option ((#) x) (stringEntries vs)"
| "stringEntries (_ # vs) = None"

definition normalizeOptionalStringArray :: "json \<Rightarrow> string \<Rightarrow> exn + string list option" where
  "normalizeOptionalStringArray v label =
     (case v of
        JUndefined \<Rightarrow> Inr None
      | JNull \<Rightarrow> Inr None
      | JArr vs \<Rightarrow>
          (case stringEntries vs of
             None \<Rightarrow> Inl (HTTPException BAD_REQUEST (label @ '' must contain only strings''))
           | Some xs \<Rightarrow> Inr (Some xs))
      | _ \<Rightarrow> Inl (HTTPException BAD_REQUEST (label @ '' must be an array'')))"

text \<open>A normalised field as an action, and the check \<^verbatim>\<open>if (normalized) await ensure...\<close>
  that follows it: the reference is looked up when the string is not empty.\<close>

definition liftA :: "exn + 'a \<Rightarrow> 'a action" where
  "liftA r = (case r of Inl x \<Rightarrow> throwA x | Inr v \<Rightarrow> retA v)"

definition ifPresent :: "string option \<Rightarrow> (string \<Rightarrow> unit action) \<Rightarrow> unit action" where
  "ifPresent v ensure = (case v of None \<Rightarrow> retA () | Some x \<Rightarrow> whenA (x \<noteq> []) (ensure x))"

definition validateMovedLessonReferences :: "env \<Rightarrow> movedBody \<Rightarrow> unit action" where
  "validateMovedLessonReferences e body =
     bindA (liftA (normalizeOptionalString (b_startingPeriod body) ''Starting period''))
       (\<lambda>normalizedStartingPeriod.
     bindA (ifPresent normalizedStartingPeriod (ensurePeriodExists e)) (\<lambda>_.
     bindA (liftA (normalizeOptionalString (b_startingDay body) ''Starting day''))
       (\<lambda>normalizedStartingDay.
     bindA (ifPresent normalizedStartingDay (ensureDayDefinitionExists e)) (\<lambda>_.
     bindA (liftA (normalizeOptionalString (b_room body) ''Classroom''))
       (\<lambda>normalizedRoom.
     bindA (ifPresent normalizedRoom (ensureClassroomExists e)) (\<lambda>_.
     bindA (liftA (normalizeOptionalStringArray (b_lessonIds body) ''Lesson ids''))
       (\<lambda>normalizedLessonIds.
          case normalizedLessonIds of
            None \<Rightarrow> retA ()
          | Some ids \<Rightarrow> whenA (length ids > 0) (ensureLessonsExist e ids))))))))"

subsection \<open>Writing moved lessons\<close>

text \<open>
  The value a statement writes into a column. A \<^verbatim>\<open>date\<close> column takes a text the store
  reads as a date; a nullable text column takes a string, and null for \<^verbatim>\<open>null\<close> or a
  missing value. The store rejects every other value.
\<close>

definition dateColumn :: "env \<Rightarrow> json \<Rightarrow> date option" where
  "dateColumn e v = (case v of JStr x \<Rightarrow> pgDate e x | _ \<Rightarrow> None)"

definition textColumn :: "json \<Rightarrow> string option option" where
  "textColumn v =
     (case v of
        JStr x \<Rightarrow> Some (Some x)
      | JNull \<Rightarrow> Some None
      | JUndefined \<Rightarrow> Some None
      | _ \<Rightarrow> None)"

text \<open>\<^verbatim>\<open>db.insert(movedLesson).values({...}).returning()\<close>.\<close>

definition insertMovedLesson :: "env \<Rightarrow> string \<Rightarrow> movedBody \<Rightarrow> movedLesson list action" where
  "insertMovedLesson e newId body =
     (case (dateColumn e (b_date body), textColumn (b_startingPeriod body),
            textColumn (b_startingDay body), textColumn (b_room body)) of
        (Some d, Some sp, Some sd, Some r) \<Rightarrow>
          exec e Insert TMovedLesson
            (\<lambda>s. let row = \<lparr>ml_id = newId, ml_date = d, startingPeriod = sp,
                              startingDay = sd, room = r\<rparr>
                  in ([row], s\<lparr>movedLessonT := movedLessonT s @ [row]\<rparr>))
      | _ \<Rightarrow> throwA StorageError)"

text \<open>\<^verbatim>\<open>db.insert(movedLessonLessonMTM).values(lessonIds.map(...))\<close>. The query builder
  throws on the empty array.\<close>

definition insertMovedLinks :: "env \<Rightarrow> string \<Rightarrow> string list \<Rightarrow> unit action" where
  "insertMovedLinks e movedLessonId lessonIds =
     (if lessonIds = [] then throwA StorageError
      else
        exec e Insert TMovedLessonLessonMTM
          (\<lambda>s. ((), s\<lparr>movedLessonLessonMTM := movedLessonLessonMTM s
                        @ map (\<lambda>lessonId. \<lparr>mll_lessonId = lessonId,
                                             mll_movedLessonId = movedLessonId\<rparr>) lessonIds\<rparr>)))"

definition deleteMovedLinks :: "env \<Rightarrow> string \<Rightarrow> unit action" where
  "deleteMovedLinks e movedLessonId =
     exec e Delete TMovedLessonLessonMTM
       (\<lambda>s. ((), s\<lparr>movedLessonLessonMTM :=
                     filter (\<lambda>l. mll_movedLessonId l \<noteq> movedLessonId)
                       (movedLessonLessonMTM s)\<rparr>))"

text \<open>The entries of \<^verbatim>\<open>lessonIds\<close> as the link rows take them. After the validation the
  entries of an array are strings.\<close>

definition linkIds :: "json \<Rightarrow> string list option" where
  "linkIds v = (case v of JArr vs \<Rightarrow> stringEntries vs | _ \<Rightarrow> None)"

text \<open>\<^verbatim>\<open>const [row] = await ...returning()\<close>: the first row, or undefined.\<close>

definition firstRow :: "'a list \<Rightarrow> 'a option" where
  "firstRow rows = (case rows of [] \<Rightarrow> None | r # _ \<Rightarrow> Some r)"

text \<open>\<^verbatim>\<open>if (!id) throw ...\<close> on a route parameter; past it the parameter is a string.\<close>

definition requireParam :: "string option \<Rightarrow> exn \<Rightarrow> string action" where
  "requireParam p x =
     (case p of None \<Rightarrow> throwA x | Some v \<Rightarrow> if v = [] then throwA x else retA v)"

text \<open>The response of \<^verbatim>\<open>createMovedLesson\<close> carries the inserted row (undefined if the
  insert returned none). The row and its links are written by two statements of
  \<^verbatim>\<open>db\<close>, outside any transaction.\<close>

definition createMovedLesson :: "env \<Rightarrow> string \<Rightarrow> movedBody \<Rightarrow> movedLesson option action" where
  "createMovedLesson e newId body =
     catchA
       (bindA (whenA (\<not> truthy (b_date body))
                 (throwA (HTTPException BAD_REQUEST ''Date is required''))) (\<lambda>_.
        bindA (validateMovedLessonReferences e body) (\<lambda>_.
        bindA (insertMovedLesson e newId body) (\<lambda>inserted.
          let newMovedLesson = firstRow inserted in
          bindA (case (linkIds (b_lessonIds body), newMovedLesson) of
                   (Some ids, Some r) \<Rightarrow>
                     whenA (length ids > 0) (insertMovedLinks e (ml_id r) ids)
                 | _ \<Rightarrow> retA ()) (\<lambda>_.
          retA newMovedLesson)))))
       (\<lambda>error. throwA (HTTPException INTERNAL_SERVER_ERROR ''Failed to create moved lesson''))"

text \<open>
  \<^verbatim>\<open>db.update(movedLesson).set({...}).where(eq(movedLesson.id, id)).returning()\<close>: a field
  that is undefined leaves its column as it is; any other value is written. When all four
  fields are undefined there is nothing to set, and \<^verbatim>\<open>.set\<close> throws.
\<close>

definition setDate :: "env \<Rightarrow> json \<Rightarrow> (date \<Rightarrow> date) option" where
  "setDate e v =
     (case v of JUndefined \<Rightarrow> Some (\<lambda>old. old)
              | _ \<Rightarrow> map_option (\<lambda>d old. d) (dateColumn e v))"

definition setText :: "json \<Rightarrow> (string option \<Rightarrow> string option) option" where
  "setText v =
     (case v of JUndefined \<Rightarrow> Some (\<lambda>old. old)
              | _ \<Rightarrow> map_option (\<lambda>x old. x) (textColumn v))"

definition updateMovedLessonRow :: "env \<Rightarrow> string \<Rightarrow> movedBody \<Rightarrow> movedLesson list action" where
  "updateMovedLessonRow e i body =
     (if b_date body = JUndefined \<and> b_room body = JUndefined
         \<and> b_startingDay body = JUndefined \<and> b_startingPeriod body = JUndefined
      then throwA StorageError
      else
        case (setDate e (b_date body), setText (b_startingPeriod body),
              setText (b_startingDay body), setText (b_room body)) of
          (Some fd, Some fsp, Some fsd, Some fr) \<Rightarrow>
            exec e Update TMovedLesson
              (\<lambda>s. let upd = (\<lambda>m. m\<lparr>ml_date := fd (ml_date m),
                                      startingPeriod := fsp (startingPeriod m),
                                      startingDay := fsd (startingDay m),
                                      room := fr (room m)\<rparr>);
                        rows = map (\<lambda>m. if ml_id m = i then upd m else m) (movedLessonT s)
                    in (filter (\<lambda>m. ml_id m = i) rows, s\<lparr>movedLessonT := rows\<rparr>))
        | _ \<Rightarrow> throwA StorageError)"

definition updateMovedLesson ::
  "env \<Rightarrow> string option \<Rightarrow> movedBody \<Rightarrow> movedLesson action" where
  "updateMovedLesson e ident body =
     catchA
       (bindA (requireParam ident (HTTPException BAD_REQUEST ''Moved lesson ID is required''))
          (\<lambda>i.
        bindA (validateMovedLessonReferences e body) (\<lambda>_.
        bindA (updateMovedLessonRow e i body) (\<lambda>updatedRows.
          case firstRow updatedRows of
            None \<Rightarrow> throwA (HTTPException NOT_FOUND ''Moved lesson not found'')
          | Some updatedMovedLesson \<Rightarrow>
              bindA (case b_lessonIds body of
                       JArr vs \<Rightarrow>
                         bindA (deleteMovedLinks e i) (\<lambda>_.
                           whenA (length vs > 0)
                             (case stringEntries vs of
                                None \<Rightarrow> throwA StorageError
                              | Some ids \<Rightarrow> insertMovedLinks e i ids))
                     | _ \<Rightarrow> retA ()) (\<lambda>_.
              retA updatedMovedLesson)))))
       (\<lambda>error. throwA (HTTPException INTERNAL_SERVER_ERROR ''Failed to update moved lesson''))"

text \<open>
  \<^verbatim>\<open>db.delete(movedLesson).where(eq(movedLesson.id, id)).returning()\<close>. The link rows
  of a deleted row go with it, by the cascade of the foreign key.
\<close>

definition deleteMovedLessonRow :: "env \<Rightarrow> string \<Rightarrow> movedLesson list action" where
  "deleteMovedLessonRow e i =
     exec e Delete TMovedLesson
       (\<lambda>s. (filter (\<lambda>m. ml_id m = i) (movedLessonT s),
             s\<lparr>movedLessonT := filter (\<lambda>m. ml_id m \<noteq> i) (movedLessonT s),
               movedLessonLessonMTM :=
                 filter (\<lambda>l. mll_movedLessonId l \<noteq> i) (movedLessonLessonMTM s)\<rparr>))"

definition deleteMovedLesson :: "env \<Rightarrow> string option \<Rightarrow> movedLesson action" where
  "deleteMovedLesson e ident =
     catchA
       (bindA (requireParam ident (HTTPException BAD_REQUEST ''Moved lesson ID is required''))
          (\<lambda>i.
        bindA (deleteMovedLessonRow e i) (\<lambda>deletedRows.
          case firstRow deletedRows of
            None \<Rightarrow> throwA (HTTPException NOT_FOUND ''Moved lesson not found'')
          | Some deletedMovedLesson \<Rightarrow> retA deletedMovedLesson)))
       (\<lambda>error. throwA (HTTPException INTERNAL_SERVER_ERROR ''Failed to delete moved lesson''))"

subsection \<open>Writing substitutions\<close>

text \<open>\<^verbatim>\<open>db.$count(lesson, inArray(lesson.id, lessonIds))\<close>.\<close>

definition countLessons :: "env \<Rightarrow> string list \<Rightarrow> nat action" where
  "countLessons e lessonIds =
     query e Count TLesson (\<lambda>s. length (selectIn lesson_id lessonIds (lessonT s)))"

definition insertSubstitution ::
  "env \<Rightarrow> string \<Rightarrow> string \<Rightarrow> string option \<Rightarrow> substitution list action" where
  "insertSubstitution e newId d subst =
     (case pgDate e d of
        None \<Rightarrow> throwA StorageError
      | Some day \<Rightarrow>
          exec e Insert TSubstitution
            (\<lambda>s. let row = \<lparr>sub_id = newId, sub_date = day, substituter = subst\<rparr>
                  in ([row], s\<lparr>substitutionT := substitutionT s @ [row]\<rparr>)))"

text \<open>\<^verbatim>\<open>tx.insert(substitutionLessonMTM).values(mtmValues)\<close>. The query builder throws on
  the empty array, and neither handler tests the length of the list before the call.\<close>

definition insertSubLinks :: "env \<Rightarrow> string \<Rightarrow> string list \<Rightarrow> unit action" where
  "insertSubLinks e substitutionId lessonIds =
     (if lessonIds = [] then throwA StorageError
      else
        exec e Insert TSubstitutionLessonMTM
          (\<lambda>s. ((), s\<lparr>substitutionLessonMTM := substitutionLessonMTM s
                        @ map (\<lambda>lessonId. \<lparr>sl_lessonId = lessonId,
                                             sl_substitutionId = substitutionId\<rparr>) lessonIds\<rparr>)))"

definition deleteSubLinks :: "env \<Rightarrow> string \<Rightarrow> unit action" where
  "deleteSubLinks e substitutionId =
     exec e Delete TSubstitutionLessonMTM
       (\<lambda>s. ((), s\<lparr>substitutionLessonMTM :=
                     filter (\<lambda>l. sl_substitutionId l \<noteq> substitutionId)
                       (substitutionLessonMTM s)\<rparr>))"

text \<open>\<^verbatim>\<open>createSubstitution\<close> has no \<^verbatim>\<open>try\<close> block: what it throws, and what the storage
  layer throws under it, leaves the handler as it is. \<^verbatim>\<open>!(lessonIds && date)\<close> holds when
  \<^verbatim>\<open>lessonIds\<close> is missing (an array is truthy) or \<^verbatim>\<open>date\<close> is missing or empty.\<close>

definition createSubstitution :: "env \<Rightarrow> string \<Rightarrow> subBody \<Rightarrow> substitution action" where
  "createSubstitution e newId body =
     (case (sb_lessonIds body, sb_date body) of
        (Some lessonIds, Some d) \<Rightarrow>
          if d = []
          then throwA (HTTPException BAD_REQUEST
                 ''Missing required fields: lessonIds and date are required.'')
          else if \<not> jsDateValid e d
          then throwA (HTTPException BAD_REQUEST ''Invalid date format.'')
          else
            bindA (countLessons e lessonIds) (\<lambda>lessonCount.
              if lessonCount \<noteq> length lessonIds
              then throwA (HTTPException BAD_REQUEST
                     (''attempted to substitute non-existent lesson(s), wanted: ''
                      @ showNat (length lessonIds) @ '', got: '' @ showNat lessonCount))
              else
                transaction
                  (bindA (insertSubstitution e newId d (sb_substituter body)) (\<lambda>inserted.
                     case firstRow inserted of
                       None \<Rightarrow> throwA (HTTPException INTERNAL_SERVER_ERROR
                                 ''Failed to create substitution.'')
                     | Some insertedSubstitution \<Rightarrow>
                         bindA (insertSubLinks e (sub_id insertedSubstitution) lessonIds) (\<lambda>_.
                         retA insertedSubstitution))))
      | _ \<Rightarrow> throwA (HTTPException BAD_REQUEST
                 ''Missing required fields: lessonIds and date are required.''))"

text \<open>\<^verbatim>\<open>tx.update(substitution).set(updateData).where(eq(substitution.id, id)).returning()\<close>,
  \<^verbatim>\<open>updateData\<close> being the body with \<^verbatim>\<open>lessonIds\<close> set to undefined. When the body has
  neither \<^verbatim>\<open>date\<close> nor \<^verbatim>\<open>substituter\<close> there is nothing to set, and \<^verbatim>\<open>.set\<close> throws.\<close>

definition updateSubstitutionRow :: "env \<Rightarrow> string \<Rightarrow> subBody \<Rightarrow> substitution list action" where
  "updateSubstitutionRow e i body =
     (if sb_date body = None \<and> sb_substituter body = None
      then throwA StorageError
      else
        case (case sb_date body of None \<Rightarrow> Some (\<lambda>old. old)
                                 | Some d \<Rightarrow> map_option (\<lambda>day old. day) (pgDate e d)) of
          None \<Rightarrow> throwA StorageError
        | Some fd \<Rightarrow>
            exec e Update TSubstitution
              (\<lambda>s. let upd = (\<lambda>r. r\<lparr>sub_date := fd (sub_date r),
                                      substituter := (case sb_substituter body of
                                                        None \<Rightarrow> substituter r
                                                      | Some t \<Rightarrow> Some t)\<rparr>);
                        rows = map (\<lambda>r. if sub_id r = i then upd r else r) (substitutionT s)
                    in (filter (\<lambda>r. sub_id r = i) rows, s\<lparr>substitutionT := rows\<rparr>)))"

text \<open>The exception the \<^verbatim>\<open>catch\<close> block throws keeps the status and the message; its
  \<^verbatim>\<open>cause\<close> (set in development mode only) is not part of the model.\<close>

definition updateSubstitution ::
  "env \<Rightarrow> string option \<Rightarrow> subBody \<Rightarrow> substitution option action" where
  "updateSubstitution e ident body =
     catchA
       (bindA (requireParam ident (HTTPException BAD_REQUEST ''Substitution ID is required''))
          (\<lambda>i.
        bindA (query e Select TSubstitution
                 (\<lambda>s. take 1 (filter (\<lambda>r. sub_id r = i) (substitutionT s))))
          (\<lambda>existingSubstitution.
        bindA (whenA (length existingSubstitution = 0)
                 (throwA (HTTPException NOT_FOUND ''Substitution not found''))) (\<lambda>_.
        bindA (case sb_date body of
                 None \<Rightarrow> retA ()
               | Some d \<Rightarrow>
                   whenA (d \<noteq> [] \<and> \<not> jsDateValid e d)
                     (throwA (HTTPException BAD_REQUEST ''Invalid date format''))) (\<lambda>_.
        bindA (case sb_lessonIds body of
                 None \<Rightarrow> retA ()
               | Some lessonIds \<Rightarrow>
                   bindA (countLessons e lessonIds) (\<lambda>lessonCount.
                     whenA (lessonCount \<noteq> length lessonIds)
                       (throwA (HTTPException BAD_REQUEST
                          (''Some lessons don'' @ [CHR 0x27] @ ''t exist, wanted: ''
                           @ showNat (length lessonIds) @ '', found: ''
                           @ showNat lessonCount))))) (\<lambda>_.
        transaction
          (bindA (updateSubstitutionRow e i body) (\<lambda>updatedRows.
           bindA (case sb_lessonIds body of
                    None \<Rightarrow> retA ()
                  | Some lessonIds \<Rightarrow>
                      bindA (deleteSubLinks e i) (\<lambda>_. insertSubLinks e i lessonIds)) (\<lambda>_.
           retA (firstRow updatedRows))))))))))
       (\<lambda>error. throwA (HTTPException INTERNAL_SERVER_ERROR ''Failed to update substitution''))"

text \<open>
  \<^verbatim>\<open>db.delete(substitution).where(eq(substitution.id, id)).returning()\<close>; the source
  notes that the link rows are deleted by the cascade constraint.
\<close>

definition deleteSubstitutionRow :: "env \<Rightarrow> string \<Rightarrow> substitution list action" where
  "deleteSubstitutionRow e i =
     exec e Delete TSubstitution
       (\<lambda>s. (filter (\<lambda>r. sub_id r = i) (substitutionT s),
             s\<lparr>substitutionT := filter (\<lambda>r. sub_id r \<noteq> i) (substitutionT s),
               substitutionLessonMTM :=
                 filter (\<lambda>l. sl_substitutionId l \<noteq> i) (substitutionLessonMTM s)\<rparr>))"

definition deleteSubstitution ::
  "env \<Rightarrow> string option \<Rightarrow> substitution option action" where
  "deleteSubstitution e ident =
     catchA
       (bindA (requireParam ident (HTTPException BAD_REQUEST ''Substitution ID is required''))
          (\<lambda>i.
        bindA (query e Select TSubstitution
                 (\<lambda>s. take 1 (filter (\<lambda>r. sub_id r = i) (substitutionT s))))
          (\<lambda>existingSubstitution.
        bindA (whenA (length existingSubstitution = 0)
                 (throwA (HTTPException NOT_FOUND ''Substitution not found''))) (\<lambda>_.
        bindA (deleteSubstitutionRow e i) (\<lambda>deletedRows.
        retA (firstRow deletedRows))))))
       (\<lambda>error. throwA (HTTPException INTERNAL_SERVER_ERROR ''Failed to delete substitution''))"

subsection \<open>A small school, for running the handlers\<close>

text \<open>
  Day 20157 is 2025-03-10 and day 20156 is 2025-03-09. Both clocks read noon of 2025-03-10
  local time, one in UTC and one in a zone one hour east of UTC (11:00 UTC).
\<close>

definition clockNoonUTC :: clock where
  "clockNoonUTC = \<lparr>nowMs = 1741608000000, tzOffsetMin = 0\<rparr>"

definition clockNoonCET :: clock where
  "clockNoonCET = \<lparr>nowMs = 1741604400000, tzOffsetMin = 60\<rparr>"

definition demoPgDate :: "string \<Rightarrow> date option" where
  "demoPgDate x =
     (if x = ''2025-03-10'' then Some 20157
      else if x = ''2025-03-09'' then Some 20156
      else if x = ''2025-03-11'' then Some 20158
      else None)"

definition demoJsDateValid :: "string \<Rightarrow> bool" where
  "demoJsDateValid x = (x = ''2025-03-10'' \<or> x = ''2025-03-09'' \<or> x = ''2025-03-11'')"

definition demoEnv :: env where
  "demoEnv = \<lparr>fault = noFaults, pgDate = demoPgDate, jsDateValid = demoJsDateValid\<rparr>"

definition demoEnvWith :: "faults \<Rightarrow> env" where
  "demoEnvWith flt = \<lparr>fault = flt, pgDate = demoPgDate, jsDateValid = demoJsDateValid\<rparr>"

text \<open>The storage layer fails at the insert of moved-lesson link rows, and nowhere else.\<close>

definition failMovedLinkInsert :: faults where
  "failMovedLinkInsert = (\<lambda>op tbl. op = Insert \<and> tbl = TMovedLessonLessonMTM)"

definition ttOld :: timetable where
  "ttOld = \<lparr>tt_id = ''tt-old'', tt_name = ''autumn'', validFrom = 20000\<rparr>"

definition ttNext :: timetable where
  "ttNext = \<lparr>tt_id = ''tt-next'', tt_name = ''summer'', validFrom = 20300\<rparr>"

definition lessonA :: lesson where
  "lessonA = \<lparr>lesson_id = ''L1'', subjectId = ''S1'', dayDefinitionId = ''D1'',
     periodId = ''P1'', teacherIds = Some [''T1''], classroomIds = Some [''R1''],
     weeksDefinitionId = ''W1'', termDefinitionId = ''TERM1'', periodsPerWeek = 2\<rparr>"

definition lessonB :: lesson where
  "lessonB = \<lparr>lesson_id = ''L2'', subjectId = ''S1'', dayDefinitionId = ''D1'',
     periodId = ''P1'', teacherIds = Some [''T2''], classroomIds = None,
     weeksDefinitionId = ''W1'', termDefinitionId = ''TERM1'', periodsPerWeek = 1\<rparr>"

text \<open>A lesson whose subject, period, second teacher and first classroom are not in the
  catalog.\<close>

definition lessonC :: lesson where
  "lessonC = \<lparr>lesson_id = ''L3'', subjectId = ''S-gone'', dayDefinitionId = ''D1'',
     periodId = ''P-gone'', teacherIds = Some [''T1'', ''T-gone'', ''T2''],
     classroomIds = Some [''R-gone'', ''R1''],
     weeksDefinitionId = ''W1'', termDefinitionId = ''TERM1'', periodsPerWeek = 3\<rparr>"

definition movedToday :: movedLesson where
  "movedToday = \<lparr>ml_id = ''M1'', ml_date = 20157, startingPeriod = Some ''P1'',
     startingDay = None, room = Some ''R1''\<rparr>"

definition movedYesterday :: movedLesson where
  "movedYesterday = \<lparr>ml_id = ''M0'', ml_date = 20156, startingPeriod = None,
     startingDay = None, room = None\<rparr>"

definition subToday :: substitution where
  "subToday = \<lparr>sub_id = ''SUB1'', sub_date = 20157, substituter = Some ''T2''\<rparr>"

definition periodP1 :: period where
  "periodP1 = \<lparr>period_id = ''P1'', startTime = ''08:00'', endTime = ''08:45'', period_no = 1\<rparr>"

definition roomR1 :: classroom where
  "roomR1 = \<lparr>classroom_id = ''R1'', classroom_name = ''Room 1'', classroom_short = ''R1''\<rparr>"

definition teacherT1 :: teacher where
  "teacherT1 = \<lparr>teacher_id = ''T1'', firstName = ''Ada'', lastName = ''Kovacs'',
     teacher_short = ''AK''\<rparr>"

definition teacherT2 :: teacher where
  "teacherT2 = \<lparr>teacher_id = ''T2'', firstName = ''Bela'', lastName = ''Nagy'',
     teacher_short = ''BN''\<rparr>"

definition schoolDb :: db where
  "schoolDb =
     \<lparr>periodT = [periodP1],
      dayDefinitionT = [\<lparr>day_id = ''D1'', day_name = ''Monday'', day_short = ''Mo''\<rparr>],
      classroomT = [roomR1],
      teacherT = [teacherT1, teacherT2],
      subjectT = [\<lparr>subject_id = ''S1'', subject_name = ''Mathematics'', subject_short = ''Ma''\<rparr>],
      cohortT = [\<lparr>cohort_id = ''K1'', cohort_name = ''9.A''\<rparr>],
      lessonT = [lessonA, lessonB, lessonC],
      lessonCohortMTM = [\<lparr>lc_lessonId = ''L1'', lc_cohortId = ''K1''\<rparr>,
                         \<lparr>lc_lessonId = ''L2'', lc_cohortId = ''K1''\<rparr>,
                         \<lparr>lc_lessonId = ''L3'', lc_cohortId = ''K1''\<rparr>],
      movedLessonT = [movedToday, movedYesterday],
      movedLessonLessonMTM = [\<lparr>mll_lessonId = ''L1'', mll_movedLessonId = ''M1''\<rparr>,
                              \<lparr>mll_lessonId = ''L2'', mll_movedLessonId = ''M0''\<rparr>],
      substitutionT = [subToday],
      substitutionLessonMTM = [\<lparr>sl_lessonId = ''L1'', sl_substitutionId = ''SUB1''\<rparr>],
      timetableT = [ttOld, ttNext]\<rparr>"

text \<open>The same store with each link row twice.\<close>

definition doubledLinksDb :: db where
  "doubledLinksDb =
     schoolDb\<lparr>movedLessonLessonMTM := movedLessonLessonMTM schoolDb @ movedLessonLessonMTM schoolDb,
              substitutionLessonMTM :=
                substitutionLessonMTM schoolDb @ substitutionLessonMTM schoolDb\<rparr>"

text \<open>Request bodies for the runs.\<close>

definition bodyMove :: movedBody where
  "bodyMove = \<lparr>b_startingPeriod = JStr ''P1'', b_startingDay = JUndefined, b_room = JNull,
     b_date = JStr ''2025-03-11'', b_lessonIds = JArr [JStr ''L1'', JStr ''L2'']\<rparr>"

definition bodyRelink :: movedBody where
  "bodyRelink = \<lparr>b_startingPeriod = JUndefined, b_startingDay = JUndefined,
     b_room = JUndefined, b_date = JStr ''2025-03-11'', b_lessonIds = JArr [JStr ''L3'']\<rparr>"

definition bodyRedate :: movedBody where
  "bodyRedate = \<lparr>b_startingPeriod = JUndefined, b_startingDay = JUndefined,
     b_room = JUndefined, b_date = JStr ''2025-03-11'', b_lessonIds = JUndefined\<rparr>"

text \<open>Bodies that carry the list of lesson ids and nothing else, and bodies whose list is
  empty.\<close>

definition bodyLinksOnly :: movedBody where
  "bodyLinksOnly = \<lparr>b_startingPeriod = JUndefined, b_startingDay = JUndefined,
     b_room = JUndefined, b_date = JUndefined, b_lessonIds = JArr [JStr ''L3'']\<rparr>"

definition bodyUnlink :: movedBody where
  "bodyUnlink = \<lparr>b_startingPeriod = JUndefined, b_startingDay = JUndefined,
     b_room = JUndefined, b_date = JStr ''2025-03-11'', b_lessonIds = JArr []\<rparr>"

definition subBodyLinksOnly :: subBody where
  "subBodyLinksOnly =
     \<lparr>sb_date = None, sb_lessonIds = Some [''L2'', ''L3''], sb_substituter = None\<rparr>"

definition subBodyUnlink :: subBody where
  "subBodyUnlink = \<lparr>sb_date = Some ''2025-03-11'', sb_lessonIds = Some [], sb_substituter = None\<rparr>"

definition subBodyUnknownTeacher :: subBody where
  "subBodyUnknownTeacher =
     \<lparr>sb_date = Some ''2025-03-10'', sb_lessonIds = Some [''L1''],
      sb_substituter = Some ''T-missing''\<rparr>"

definition subBodyNoLessons :: subBody where
  "subBodyNoLessons =
     \<lparr>sb_date = Some ''2025-03-10'', sb_lessonIds = Some [], sb_substituter = Some ''T1''\<rparr>"

definition subBodyTwice :: subBody where
  "subBodyTwice =
     \<lparr>sb_date = Some ''2025-03-10'', sb_lessonIds = Some [''L1'', ''L1''],
      sb_substituter = Some ''T1''\<rparr>"

definition subBodyRelink :: subBody where
  "subBodyRelink =
     \<lparr>sb_date = Some ''2025-03-11'', sb_lessonIds = Some [''L2'', ''L3''],
      sb_substituter = None\<rparr>"

definition subBodyRedate :: subBody where
  "subBodyRedate = \<lparr>sb_date = Some ''2025-03-11'', sb_lessonIds = None, sb_substituter = None\<rparr>"

text \<open>The rows and stores the runs of the updates end in.\<close>

definition movedRelinked :: movedLesson where
  "movedRelinked = movedToday\<lparr>ml_date := 20158\<rparr>"

definition relinkedDb :: db where
  "relinkedDb =
     schoolDb\<lparr>movedLessonT := [movedRelinked, movedYesterday],
              movedLessonLessonMTM := [\<lparr>mll_lessonId = ''L2'', mll_movedLessonId = ''M0''\<rparr>,
                                      \<lparr>mll_lessonId = ''L3'', mll_movedLessonId = ''M1''\<rparr>]\<rparr>"

definition unlinkedDb :: db where
  "unlinkedDb =
     schoolDb\<lparr>movedLessonT := [movedRelinked, movedYesterday],
              movedLessonLessonMTM := [\<lparr>mll_lessonId = ''L2'', mll_movedLessonId = ''M0''\<rparr>]\<rparr>"

definition redatedDb :: db where
  "redatedDb = schoolDb\<lparr>movedLessonT := [movedRelinked, movedYesterday]\<rparr>"

definition subRelinked :: substitution where
  "subRelinked = subToday\<lparr>sub_date := 20158\<rparr>"

definition subRelinkedDb :: db where
  "subRelinkedDb =
     schoolDb\<lparr>substitutionT := [subRelinked],
              substitutionLessonMTM := [\<lparr>sl_lessonId = ''L2'', sl_substitutionId = ''SUB1''\<rparr>,
                                       \<lparr>sl_lessonId = ''L3'', sl_substitutionId = ''SUB1''\<rparr>]\<rparr>"

definition subRedatedDb :: db where
  "subRedatedDb = schoolDb\<lparr>substitutionT := [subRelinked]\<rparr>"

subsection \<open>Unique ids\<close>

text \<open>The ids of the rows of a table are unique, in each table the reads of the overrides
  join on.\<close>

definition primaryKeys :: "db \<Rightarrow> bool" where
  "primaryKeys s =
     (distinct (map period_id (periodT s))
      \<and> distinct (map day_id (dayDefinitionT s))
      \<and> distinct (map classroom_id (classroomT s))
      \<and> distinct (map teacher_id (teacherT s))
      \<and> distinct (map ml_id (movedLessonT s))
      \<and> distinct (map sub_id (substitutionT s)))"

subsection \<open>What an action does to the store\<close>

text \<open>An action is read-only when it leaves every store as it found it, and atomic when
  it leaves the store as it found it whenever it throws.\<close>

definition readOnly :: "'a action \<Rightarrow> bool" where
  "readOnly m = (\<forall>s. snd (m s) = s)"

definition atomicA :: "'a action \<Rightarrow> bool" where
  "atomicA m = (\<forall>s. case fst (m s) of Inl x \<Rightarrow> snd (m s) = s | Inr v \<Rightarrow> True)"

section \<open>Properties\<close>

lemma showNat_small:
  "showNat 0 = ''0''" "showNat (Suc 0) = ''1''" "showNat (Suc (Suc 0)) = ''2''"
  by (simp_all add: showNat.simps showDigit_def)

subsection \<open>The timetable version selector\<close>

lemma today_noon_utc: "dateToYYYYMMDD clockNoonUTC (nowMs clockNoonUTC) = 20157"
  by (simp add: dateToYYYYMMDD_def localDate_def clockNoonUTC_def msPerDay_def msPerMinute_def)

text \<open>What the query returns: nothing exactly when every row starts before today; otherwise
  one row, which starts today or later and has the greatest \<open>validFrom\<close> of the whole
  table.\<close>

lemma latestValidQuery_Nil:
  "latestValidQuery today rows = [] \<longleftrightarrow> (\<forall>t \<in> set rows. validFrom t < today)"
proof -
  have "sort_key (\<lambda>r. - validFrom r) (filter (\<lambda>t. today \<le> validFrom t) rows) = []
        \<longleftrightarrow> filter (\<lambda>t. today \<le> validFrom t) rows = []"
    by (metis length_0_conv length_sort)
  then show ?thesis
    by (auto simp: latestValidQuery_def orderByDesc_def filter_empty_conv not_le)
qed

lemma hd_sort_key_neg:
  fixes f :: "'a \<Rightarrow> int"
  shows "xs \<noteq> [] \<Longrightarrow> x \<in> set xs \<Longrightarrow> f x \<le> f (hd (sort_key (\<lambda>r. - f r) xs))"
proof -
  assume ne: "xs \<noteq> []" and x: "x \<in> set xs"
  let ?ys = "sort_key (\<lambda>r. - f r) xs"
  have s: "sorted (map (\<lambda>r. - f r) ?ys)" by (rule sorted_sort_key)
  have "set ?ys = set xs" by simp
  with x have xin: "x \<in> set ?ys" by simp
  have ne': "?ys \<noteq> []" using ne by (metis length_0_conv length_sort)
  then obtain y ys where ys: "?ys = y # ys" by (cases ?ys) auto
  with s xin show ?thesis by (auto simp: ys)
qed

lemma latestValidQuery_Cons:
  assumes "latestValidQuery today rows = r # rest"
  shows "rest = [] \<and> r \<in> set rows \<and> today \<le> validFrom r
         \<and> (\<forall>t \<in> set rows. validFrom t \<le> validFrom r)"
proof -
  let ?fs = "filter (\<lambda>t. today \<le> validFrom t) rows"
  let ?ys = "sort_key (\<lambda>r. - validFrom r) ?fs"
  from assms have t: "take 1 ?ys = r # rest"
    by (simp add: latestValidQuery_def orderByDesc_def)
  then have ne: "?ys \<noteq> []" by auto
  then have hd: "r = hd ?ys" and rest: "rest = []" using t by (cases ?ys; simp)+
  have "set ?ys = set ?fs" by simp
  with ne hd have rin: "r \<in> set ?fs" by (metis list.set_sel(1))
  have fne: "?fs \<noteq> []" using ne by auto
  have mx: "\<forall>t \<in> set ?fs. validFrom t \<le> validFrom r"
    using hd_sort_key_neg [OF fne] hd by blast
  have "\<forall>t \<in> set rows. validFrom t \<le> validFrom r"
  proof
    fix t assume "t \<in> set rows"
    show "validFrom t \<le> validFrom r"
    proof (cases "today \<le> validFrom t")
      case True with \<open>t \<in> set rows\<close> mx show ?thesis by simp
    next
      case False with rin show ?thesis by simp
    qed
  qed
  with rin rest show ?thesis by simp
qed

text \<open>
  Claim C3: for every comparison date, the selector returns the row with the greatest
  \<open>validFrom\<close> that does not exceed the date, and a successful "no valid timetable"
  when no row qualifies.

  The handler run on 2025-03-10 (day 20157) over a table with a version valid from day 20000
  and one valid from day 20300: it returns the version of day 20300, which is not yet in
  force, although the version of day 20000 is the greatest one not exceeding today. Over the
  version of day 20000 alone it answers "No valid timetable found." although that version
  qualifies.
\<close>

theorem getLatestValidTimetable_returns_future_version:
  "getLatestValidTimetable noFaults clockNoonUTC schoolDb = Inr (Row ttNext)
   \<and> timetableT schoolDb = [ttOld, ttNext]
   \<and> validFrom ttOld \<le> dateToYYYYMMDD clockNoonUTC (nowMs clockNoonUTC)
   \<and> dateToYYYYMMDD clockNoonUTC (nowMs clockNoonUTC) < validFrom ttNext
   \<and> getLatestValidTimetable noFaults clockNoonUTC (schoolDb\<lparr>timetableT := [ttOld]\<rparr>)
       = Inr (Message ''No valid timetable found.'')"
  by (simp add: getLatestValidTimetable_def latestValidQuery_def orderByDesc_def
      today_noon_utc noFaults_def schoolDb_def ttOld_def ttNext_def)

subsection \<open>Duplicate link rows in the reads\<close>

text \<open>
  Claim C4: in every read variant, when the link table holds two rows with the same
  (override, lesson) pair, the lesson-id list of that override contains each lesson id at
  most once.

  The reads run over the store in which every link row stands twice. The cohort variants of
  the moved-lesson reads aggregate with \<^verbatim>\<open>DISTINCT\<close> and return each id once (last
  conjunct); the two other moved-lesson reads and the three substitution reads aggregate
  without it and return the id twice.
\<close>

theorem reads_repeat_duplicated_links:
  "(\<exists>vs. getAllMovedLessons noFaults doubledLinksDb = Inr vs
         \<and> map (\<lambda>v. (ml_id (v_movedLesson v), v_lessons v)) vs
             = [(''M1'', [''L1'', ''L1'']), (''M0'', [''L2'', ''L2''])])
   \<and> (\<exists>vs. getRelevantMovedLessons noFaults clockNoonUTC doubledLinksDb = Inr vs
         \<and> map (\<lambda>v. (ml_id (v_movedLesson v), v_lessons v)) vs
             = [(''M1'', [''L1'', ''L1''])])
   \<and> (\<exists>vs. getAllSubstitutions noFaults doubledLinksDb = Inr vs
         \<and> map (\<lambda>v. (sub_id (sv_substitution v), sv_lessons v)) vs
             = [(''SUB1'', [''L1'', ''L1''])])
   \<and> (\<exists>vs. getRelevantSubstitutions noFaults clockNoonUTC doubledLinksDb = Inr vs
         \<and> map (\<lambda>v. (sub_id (sv_substitution v), sv_lessons v)) vs
             = [(''SUB1'', [''L1'', ''L1''])])
   \<and> (\<exists>vs. getRelevantSubstitutionsForCohort noFaults clockNoonUTC (Some ''K1'') doubledLinksDb
               = Inr (''K1'', vs)
         \<and> map (\<lambda>v. (sub_id (sv_substitution v), sv_lessons v)) vs
             = [(''SUB1'', [''L1'', ''L1''])])
   \<and> (\<exists>vs. getMovedLessonsForCohort noFaults (Some ''K1'') doubledLinksDb = Inr vs
         \<and> map (\<lambda>v. (ml_id (v_movedLesson v), v_lessons v)) vs
             = [(''M1'', [''L1'']), (''M0'', [''L2''])])"
  by (simp add: getAllMovedLessons_def getRelevantMovedLessons_def getAllSubstitutions_def
      getRelevantSubstitutions_def getRelevantSubstitutionsForCohort_def
      getMovedLessonsForCohort_def leftJoin_def eqCol_def arrayAgg_def arrayAggDistinct_def
      groupBy_def movedJoinRows_def movedCohortJoinRows_def movedKey_def movedLinkId_def
      movedView_def movedViews_def missingParam_def subJoinRows_def subCohortJoinRows_def
      subKey_def subLinkId_def subView_def subViews_def schoolDb_def doubledLinksDb_def
      movedToday_def movedYesterday_def subToday_def periodP1_def roomR1_def teacherT1_def
      teacherT2_def lessonA_def lessonB_def lessonC_def ttOld_def ttNext_def noFaults_def
      isoDate_def setHoursMidnight_def localDate_def clockNoonUTC_def msPerDay_def
      msPerMinute_def)

subsection \<open>The date of the relevant reads\<close>

text \<open>
  \<^verbatim>\<open>getRelevantMovedLessons\<close> compares with the UTC date of local midnight. West of UTC
  (and in UTC) that is the local date; east of UTC it is the day before.
\<close>

lemma isoDate_setHoursMidnight_east:
  assumes "0 < tzOffsetMin clk" "tzOffsetMin clk \<le> 1440"
  shows "isoDate (setHoursMidnight clk t) = localDate clk t - 1"
proof -
  define L where "L = localDate clk t"
  define x where "x = tzOffsetMin clk * 60000"
  have x: "0 < x" "x \<le> 86400000" using assms by (simp_all add: x_def)
  have "(L * 86400000 - x) div 86400000 = L - 1"
  proof -
    have e: "L * 86400000 - x = (L - 1) * 86400000 + (86400000 - x)"
      by (simp add: algebra_simps)
    have r: "(86400000 - x) div 86400000 = 0" using x by simp
    show ?thesis unfolding e by (simp only: div_mult_self3 r)
  qed
  then show ?thesis
    by (simp add: isoDate_def setHoursMidnight_def msPerDay_def msPerMinute_def L_def x_def)
qed

lemma isoDate_setHoursMidnight_west:
  assumes "- 1440 < tzOffsetMin clk" "tzOffsetMin clk \<le> 0"
  shows "isoDate (setHoursMidnight clk t) = localDate clk t"
proof -
  define L where "L = localDate clk t"
  define y where "y = - (tzOffsetMin clk * 60000)"
  have y: "0 \<le> y" "y < 86400000" using assms by (simp_all add: y_def)
  have "(L * 86400000 + y) div 86400000 = L"
    using y by simp
  then show ?thesis
    by (simp add: isoDate_def setHoursMidnight_def msPerDay_def msPerMinute_def L_def y_def)
qed

text \<open>
  Claim C9: a relevant read includes an override dated the current calendar date and
  excludes one dated the previous day.

  The process runs one hour east of UTC and the request arrives at noon of 2025-03-10 local
  time; the date is 2025-03-10 (day 20157) in local time and in UTC alike. The moved lesson
  dated 2025-03-09 (day 20156) is in the result.
\<close>

theorem getRelevantMovedLessons_includes_previous_day:
  "localDate clockNoonCET (nowMs clockNoonCET) = 20157
   \<and> isoDate (nowMs clockNoonCET) = 20157
   \<and> ml_date movedYesterday = 20156
   \<and> (\<exists>vs. getRelevantMovedLessons noFaults clockNoonCET schoolDb = Inr vs
          \<and> map v_movedLesson vs = [movedToday, movedYesterday])"
  by (simp add: getRelevantMovedLessons_def leftJoin_def eqCol_def arrayAgg_def groupBy_def
      movedJoinRows_def movedKey_def movedLinkId_def movedView_def movedViews_def schoolDb_def
      movedToday_def movedYesterday_def subToday_def periodP1_def roomR1_def teacherT1_def
      teacherT2_def lessonA_def lessonB_def lessonC_def ttOld_def ttNext_def noFaults_def
      isoDate_def setHoursMidnight_def localDate_def clockNoonCET_def msPerDay_def msPerMinute_def)

subsection \<open>Atomicity of the writes\<close>

lemma readOnly_retA: "readOnly (retA x)"
  by (simp add: readOnly_def retA_def)

lemma readOnly_throwA: "readOnly (throwA x)"
  by (simp add: readOnly_def throwA_def)

lemma readOnly_query: "readOnly (query e op tbl f)"
  by (simp add: readOnly_def query_def)

lemma readOnly_whenA: "readOnly m \<Longrightarrow> readOnly (whenA c m)"
  by (simp add: whenA_def readOnly_retA)

lemma readOnly_bindA: "readOnly m \<Longrightarrow> (\<And>x. readOnly (f x)) \<Longrightarrow> readOnly (bindA m f)"
  unfolding readOnly_def bindA_def
  by (auto split: prod.splits sum.splits) (metis snd_conv)+

lemma readOnly_requireParam: "readOnly (requireParam p x)"
  by (simp add: requireParam_def readOnly_retA readOnly_throwA split: option.split)

lemma readOnly_countLessons: "readOnly (countLessons e ids)"
  by (simp add: countLessons_def readOnly_query)

lemma atomicA_readOnly: "readOnly m \<Longrightarrow> atomicA m"
  by (simp add: readOnly_def atomicA_def split: sum.split)

lemma atomicA_transaction: "atomicA (transaction m)"
  by (simp add: atomicA_def transaction_def split: prod.split sum.split)

lemma atomicA_bindA: "readOnly m \<Longrightarrow> (\<And>x. atomicA (f x)) \<Longrightarrow> atomicA (bindA m f)"
  unfolding readOnly_def atomicA_def bindA_def
  by (auto split: prod.splits sum.splits) (metis fst_conv snd_conv sum.simps(5))+

lemma atomicA_catchA: "atomicA m \<Longrightarrow> (\<And>x. readOnly (h x)) \<Longrightarrow> atomicA (catchA m h)"
  unfolding readOnly_def atomicA_def catchA_def
  by (auto split: prod.splits sum.splits) (metis fst_conv snd_conv sum.simps(5))+

lemma atomicA_throwA: "atomicA (throwA x)"
  by (simp add: atomicA_readOnly readOnly_throwA)

lemma atomicA_retA: "atomicA (retA x)"
  by (simp add: atomicA_readOnly readOnly_retA)

lemma atomicA_D: "atomicA m \<Longrightarrow> fst (m s) = Inl x \<Longrightarrow> snd (m s) = s"
  unfolding atomicA_def by (metis sum.simps(5))

text \<open>The substitution writes are atomic: whatever fails, and wherever, a create or an
  update that throws leaves the store as it was.\<close>

lemma createSubstitution_atomic: "atomicA (createSubstitution e newId body)"
  unfolding createSubstitution_def
  by (auto split: option.split
      intro!: atomicA_bindA atomicA_transaction atomicA_throwA readOnly_countLessons)

lemma updateSubstitution_atomic: "atomicA (updateSubstitution e ident body)"
  unfolding updateSubstitution_def
  by (auto split: option.split
      intro!: atomicA_catchA atomicA_bindA atomicA_transaction readOnly_requireParam
        readOnly_query readOnly_whenA readOnly_throwA readOnly_retA readOnly_bindA
        readOnly_countLessons)

text \<open>
  Claim C1: a create or update of a moved lesson or substitution that supplies lesson ids
  writes the row and replaces the links atomically; in particular \<^verbatim>\<open>createMovedLesson\<close>
  leaves no persisted row with missing links when the insert of the links fails.

  The storage layer fails at the insert of the link rows. \<^verbatim>\<open>createMovedLesson\<close> answers
  with an internal error and leaves the new row \<open>M2\<close> in the store, with no link row;
  \<^verbatim>\<open>updateMovedLesson\<close> answers with an internal error and leaves \<open>M1\<close> with its new
  fields and with no link row at all, its former link to \<open>L1\<close> deleted. Neither handler
  opens a transaction.
\<close>

theorem createMovedLesson_leaves_row_without_links:
  "createMovedLesson (demoEnvWith failMovedLinkInsert) ''M2'' bodyMove schoolDb
     = (Inl (HTTPException INTERNAL_SERVER_ERROR ''Failed to create moved lesson''),
        schoolDb\<lparr>movedLessonT := movedLessonT schoolDb
                   @ [\<lparr>ml_id = ''M2'', ml_date = 20158, startingPeriod = Some ''P1'',
                        startingDay = None, room = None\<rparr>]\<rparr>)
   \<and> updateMovedLesson (demoEnvWith failMovedLinkInsert) (Some ''M1'') bodyMove schoolDb
     = (Inl (HTTPException INTERNAL_SERVER_ERROR ''Failed to update moved lesson''),
        schoolDb\<lparr>movedLessonT := [\<lparr>ml_id = ''M1'', ml_date = 20158,
                                      startingPeriod = Some ''P1'', startingDay = None,
                                      room = None\<rparr>, movedYesterday],
                 movedLessonLessonMTM := [\<lparr>mll_lessonId = ''L2'',
                                             mll_movedLessonId = ''M0''\<rparr>]\<rparr>)"
  by (simp add: createMovedLesson_def updateMovedLesson_def retA_def throwA_def bindA_def
      catchA_def whenA_def query_def exec_def liftA_def ifPresent_def firstRow_def requireParam_def
      ensurePeriodExists_def ensureDayDefinitionExists_def ensureClassroomExists_def
      ensureLessonsExist_def normalizeOptionalString_def normalizeOptionalStringArray_def
      validateMovedLessonReferences_def dateColumn_def textColumn_def insertMovedLesson_def
      insertMovedLinks_def deleteMovedLinks_def linkIds_def setDate_def setText_def
      updateMovedLessonRow_def selectIn_def
      schoolDb_def movedToday_def movedYesterday_def subToday_def periodP1_def roomR1_def
      teacherT1_def teacherT2_def lessonA_def lessonB_def lessonC_def ttOld_def ttNext_def
      demoEnvWith_def demoPgDate_def demoJsDateValid_def failMovedLinkInsert_def bodyMove_def
      Let_def del: set_filter)

subsection \<open>What the caller sees of a missing override\<close>

lemma catchA_throws_only: "fst (catchA m (\<lambda>x. throwA y) s) = Inl z \<Longrightarrow> z = y"
  by (auto simp: catchA_def throwA_def split: prod.splits sum.splits)

text \<open>
  Claim C2: an update or delete of a moved lesson or substitution whose id resolves to no
  row fails with NotFound, and NotFound is what the caller observes.

  Each of the four handlers throws its \<^verbatim>\<open>NOT_FOUND\<close> exception inside its own
  \<^verbatim>\<open>try\<close> block, whose \<^verbatim>\<open>catch\<close> replaces every exception by an internal error. No
  request makes any of them answer \<^verbatim>\<open>NOT_FOUND\<close>; on an id that names no row the caller
  gets the internal error.
\<close>

theorem missing_override_yields_internal_error:
  "fst (updateMovedLesson e ident mb s) \<noteq> Inl (HTTPException NOT_FOUND msg)
   \<and> fst (deleteMovedLesson e ident s) \<noteq> Inl (HTTPException NOT_FOUND msg)
   \<and> fst (updateSubstitution e ident sb s) \<noteq> Inl (HTTPException NOT_FOUND msg)
   \<and> fst (deleteSubstitution e ident s) \<noteq> Inl (HTTPException NOT_FOUND msg)
   \<and> updateMovedLesson demoEnv (Some ''M9'') bodyRedate schoolDb
       = (Inl (HTTPException INTERNAL_SERVER_ERROR ''Failed to update moved lesson''), schoolDb)
   \<and> deleteMovedLesson demoEnv (Some ''M9'') schoolDb
       = (Inl (HTTPException INTERNAL_SERVER_ERROR ''Failed to delete moved lesson''), schoolDb)
   \<and> updateSubstitution demoEnv (Some ''SUB9'') subBodyRedate schoolDb
       = (Inl (HTTPException INTERNAL_SERVER_ERROR ''Failed to update substitution''), schoolDb)
   \<and> deleteSubstitution demoEnv (Some ''SUB9'') schoolDb
       = (Inl (HTTPException INTERNAL_SERVER_ERROR ''Failed to delete substitution''), schoolDb)"
proof -
  have a: "fst (updateMovedLesson e ident mb s) \<noteq> Inl (HTTPException NOT_FOUND msg)"
    unfolding updateMovedLesson_def using catchA_throws_only by fastforce
  have b: "fst (deleteMovedLesson e ident s) \<noteq> Inl (HTTPException NOT_FOUND msg)"
    unfolding deleteMovedLesson_def using catchA_throws_only by fastforce
  have c: "fst (updateSubstitution e ident sb s) \<noteq> Inl (HTTPException NOT_FOUND msg)"
    unfolding updateSubstitution_def using catchA_throws_only by fastforce
  have d: "fst (deleteSubstitution e ident s) \<noteq> Inl (HTTPException NOT_FOUND msg)"
    unfolding deleteSubstitution_def using catchA_throws_only by fastforce
  have r: "updateMovedLesson demoEnv (Some ''M9'') bodyRedate schoolDb
       = (Inl (HTTPException INTERNAL_SERVER_ERROR ''Failed to update moved lesson''), schoolDb)
   \<and> deleteMovedLesson demoEnv (Some ''M9'') schoolDb
       = (Inl (HTTPException INTERNAL_SERVER_ERROR ''Failed to delete moved lesson''), schoolDb)
   \<and> updateSubstitution demoEnv (Some ''SUB9'') subBodyRedate schoolDb
       = (Inl (HTTPException INTERNAL_SERVER_ERROR ''Failed to update substitution''), schoolDb)
   \<and> deleteSubstitution demoEnv (Some ''SUB9'') schoolDb
       = (Inl (HTTPException INTERNAL_SERVER_ERROR ''Failed to delete substitution''), schoolDb)"
    by (simp add: deleteSubstitution_def deleteMovedLesson_def updateMovedLesson_def
        updateSubstitution_def retA_def throwA_def bindA_def catchA_def transaction_def
        whenA_def query_def exec_def liftA_def ifPresent_def firstRow_def requireParam_def
        countLessons_def insertSubLinks_def deleteSubLinks_def updateSubstitutionRow_def
        deleteSubstitutionRow_def selectIn_def ensurePeriodExists_def
        ensureDayDefinitionExists_def ensureClassroomExists_def ensureLessonsExist_def
        normalizeOptionalString_def normalizeOptionalStringArray_def
        validateMovedLessonReferences_def dateColumn_def textColumn_def insertMovedLinks_def
        deleteMovedLinks_def setDate_def setText_def updateMovedLessonRow_def
        deleteMovedLessonRow_def schoolDb_def movedToday_def movedYesterday_def subToday_def
        periodP1_def roomR1_def teacherT1_def teacherT2_def lessonA_def lessonB_def lessonC_def
        ttOld_def ttNext_def noFaults_def demoEnv_def demoPgDate_def demoJsDateValid_def
        bodyRedate_def subBodyRedate_def Let_def
        del: set_filter)
  from a b c d r show ?thesis by blast
qed

subsection \<open>Validation of a substitution\<close>

text \<open>
  Claim C5: a substitution create or update whose substituter id does not resolve fails with
  InvalidReference naming the field, and writes no row.

  The body names the teacher \<open>T-missing\<close>, who is not in the catalog. Whatever storage
  calls fail, neither handler answers with a \<^verbatim>\<open>BAD_REQUEST\<close>; when none fails, the create
  persists the row with the dangling reference and the update writes it into the row
  \<open>SUB1\<close>. Neither handler looks the substituter up; the moved-lesson handlers look up
  each of their references.
\<close>

theorem substitution_accepts_unknown_substituter:
  "fst (createSubstitution (demoEnvWith flt) ''SUB2'' subBodyUnknownTeacher schoolDb)
     \<noteq> Inl (HTTPException BAD_REQUEST msg)
   \<and> fst (updateSubstitution (demoEnvWith flt) (Some ''SUB1'') subBodyUnknownTeacher schoolDb)
     \<noteq> Inl (HTTPException BAD_REQUEST msg)
   \<and> createSubstitution demoEnv ''SUB2'' subBodyUnknownTeacher schoolDb
     = (Inr \<lparr>sub_id = ''SUB2'', sub_date = 20157, substituter = Some ''T-missing''\<rparr>,
        schoolDb\<lparr>substitutionT := [subToday,
                     \<lparr>sub_id = ''SUB2'', sub_date = 20157, substituter = Some ''T-missing''\<rparr>],
                 substitutionLessonMTM := substitutionLessonMTM schoolDb
                     @ [\<lparr>sl_lessonId = ''L1'', sl_substitutionId = ''SUB2''\<rparr>]\<rparr>)
   \<and> updateSubstitution demoEnv (Some ''SUB1'') subBodyUnknownTeacher schoolDb
     = (Inr (Some \<lparr>sub_id = ''SUB1'', sub_date = 20157, substituter = Some ''T-missing''\<rparr>),
        schoolDb\<lparr>substitutionT :=
                   [\<lparr>sub_id = ''SUB1'', sub_date = 20157, substituter = Some ''T-missing''\<rparr>]\<rparr>)"
proof -
  have u: "fst (updateSubstitution (demoEnvWith flt) (Some ''SUB1'') subBodyUnknownTeacher
                  schoolDb) \<noteq> Inl (HTTPException BAD_REQUEST msg)"
    unfolding updateSubstitution_def using catchA_throws_only by fastforce
  show ?thesis
    using u
    by (simp add: createSubstitution_def updateSubstitution_def retA_def throwA_def bindA_def
        catchA_def transaction_def whenA_def query_def exec_def firstRow_def requireParam_def
        countLessons_def insertSubstitution_def insertSubLinks_def deleteSubLinks_def
        updateSubstitutionRow_def selectIn_def
        schoolDb_def movedToday_def movedYesterday_def subToday_def periodP1_def roomR1_def
        teacherT1_def teacherT2_def lessonA_def lessonB_def lessonC_def ttOld_def ttNext_def
        noFaults_def demoEnv_def demoEnvWith_def demoPgDate_def demoJsDateValid_def
        subBodyUnknownTeacher_def Let_def del: set_filter)
qed

text \<open>
  Claim C6: a substitution create whose lesson-id list is empty fails with a bad request
  for a missing required field, before any reference is validated or any row written, and no
  substitution row is persisted.

  The check \<^verbatim>\<open>!(lessonIds && date)\<close> lets the empty list pass, an empty array being
  truthy. With a date that is present and valid the handler never answers with a
  \<^verbatim>\<open>BAD_REQUEST\<close>: it counts the matching lessons, opens the transaction and inserts the
  row, and the insert of the empty list of link rows throws. The transaction rolls back, so no
  row is persisted, and the error of the storage layer leaves the handler, which has no
  \<^verbatim>\<open>try\<close> block. This is the outcome whatever storage calls fail, an earlier failure
  being an error of the storage layer as well.
\<close>

theorem createSubstitution_empty_list_raises_storage_error:
  "createSubstitution e newId \<lparr>sb_date = Some d, sb_lessonIds = Some [], sb_substituter = t\<rparr> s
     = (if d = []
        then (Inl (HTTPException BAD_REQUEST
                ''Missing required fields: lessonIds and date are required.''), s)
        else if jsDateValid e d then (Inl StorageError, s)
        else (Inl (HTTPException BAD_REQUEST ''Invalid date format.''), s))
   \<and> fst (createSubstitution (demoEnvWith flt) ''SUB2'' subBodyNoLessons schoolDb)
       \<noteq> Inl (HTTPException BAD_REQUEST msg)
   \<and> createSubstitution (demoEnvWith flt) ''SUB2'' subBodyNoLessons schoolDb
       = (Inl StorageError, schoolDb)
   \<and> createSubstitution demoEnv ''SUB2'' subBodyNoLessons schoolDb
       = (Inl StorageError, schoolDb)"
  by (simp add: createSubstitution_def retA_def throwA_def bindA_def transaction_def query_def
      exec_def firstRow_def countLessons_def insertSubstitution_def insertSubLinks_def
      selectIn_def demoEnv_def demoEnvWith_def demoJsDateValid_def subBodyNoLessons_def Let_def
      split: option.split)

text \<open>The count of the lessons whose id is in a list, when the ids of the table are
  distinct and every id of the list is in the table: the number of distinct ids of the
  list.\<close>

lemma count_selectIn:
  assumes d: "distinct (map key rows)" and sub: "set ids \<subseteq> key ` set rows"
  shows "length (selectIn key ids rows) = card (set ids)"
proof -
  let ?f = "filter (\<lambda>r. key r \<in> set ids) rows"
  have "distinct (map key ?f)" using d by (simp add: distinct_map_filter)
  then have "length ?f = card (set (map key ?f))"
    by (metis distinct_card length_map)
  also have "set (map key ?f) = set ids" using sub by auto
  finally show ?thesis by (simp add: selectIn_def)
qed

text \<open>\<^verbatim>\<open>createSubstitution\<close> rejects every list that repeats an id, all of its ids
  existing, with the mismatch of the two counts.\<close>

lemma createSubstitution_rejects_repeated_id:
  assumes pk: "distinct (map lesson_id (lessonT s))"
    and ex: "set ids \<subseteq> lesson_id ` set (lessonT s)"
    and rep: "\<not> distinct ids"
    and b: "sb_lessonIds body = Some ids" "sb_date body = Some d" "d \<noteq> []"
    and dv: "jsDateValid e d"
    and nf: "\<not> fault e Count TLesson"
  shows "createSubstitution e newId body s =
           (Inl (HTTPException BAD_REQUEST
                   (''attempted to substitute non-existent lesson(s), wanted: ''
                    @ showNat (length ids) @ '', got: '' @ showNat (card (set ids)))), s)"
proof -
  have c: "length (selectIn lesson_id ids (lessonT s)) = card (set ids)"
    using count_selectIn [OF pk ex] .
  have "card (set ids) \<noteq> length ids" using rep card_distinct by blast
  with c b dv nf show ?thesis
    by (simp add: createSubstitution_def countLessons_def query_def bindA_def throwA_def)
qed

text \<open>
  Claim C10: a substitution create or update whose list contains an existing lesson id
  more than once fails with the lesson-mismatch error, the count of matching rows being
  compared with the length of the list.

  The list is \<open>[L1, L1]\<close>. The create answers with the mismatch, wanted 2 and got 1. The
  update raises its mismatch inside the \<^verbatim>\<open>try\<close> block, and the caller gets the internal
  error of the \<^verbatim>\<open>catch\<close> block.
\<close>

theorem updateSubstitution_hides_lesson_mismatch:
  "createSubstitution demoEnv ''SUB2'' subBodyTwice schoolDb
     = (Inl (HTTPException BAD_REQUEST
          ''attempted to substitute non-existent lesson(s), wanted: 2, got: 1''), schoolDb)
   \<and> updateSubstitution demoEnv (Some ''SUB1'') subBodyTwice schoolDb
     = (Inl (HTTPException INTERNAL_SERVER_ERROR ''Failed to update substitution''), schoolDb)"
  by (simp add: createSubstitution_def updateSubstitution_def retA_def throwA_def bindA_def
      catchA_def transaction_def whenA_def query_def exec_def firstRow_def requireParam_def
      countLessons_def insertSubstitution_def insertSubLinks_def deleteSubLinks_def
      updateSubstitutionRow_def selectIn_def
      schoolDb_def movedToday_def movedYesterday_def subToday_def periodP1_def roomR1_def
      teacherT1_def teacherT2_def lessonA_def lessonB_def lessonC_def ttOld_def ttNext_def
      noFaults_def demoEnv_def demoPgDate_def demoJsDateValid_def subBodyTwice_def showNat_small
      Let_def del: set_filter)

subsection \<open>Tolerant enrichment\<close>

lemma mkMap_None: "mkMap key rows k = None \<longleftrightarrow> k \<notin> key ` set rows"
  by (simp add: mkMap_def map_of_eq_None_iff image_image)

lemma mkMap_Some: "mkMap key rows k = Some r \<Longrightarrow> key r = k \<and> r \<in> set rows"
  by (auto simp: mkMap_def dest: map_of_SomeD)

lemma mkMap_selectIn_None:
  "mkMap key (selectIn key ids rows) k = None \<longleftrightarrow> k \<notin> set ids \<or> k \<notin> key ` set rows"
  by (auto simp: mkMap_None selectIn_def)

lemma map_key_lookupAll:
  assumes "\<And>k r. m k = Some r \<Longrightarrow> key r = k"
  shows "map key (lookupAll m ids) = filter (\<lambda>k. m k \<noteq> None) ids"
  using assms by (induction ids) (auto simp: lookupAll_def split: option.splits)

lemma resolved_ids:
  assumes sub: "set ids \<subseteq> set allIds"
  shows "map key (lookupAll
            (mkMap key (if allIds = [] then [] else selectIn key allIds rows)) ids)
         = filter (\<lambda>k. k \<in> key ` set rows) ids"
proof (cases "allIds = []")
  case True
  with sub have "ids = []" by simp
  then show ?thesis by (simp add: lookupAll_def)
next
  case False
  have "map key (lookupAll (mkMap key (selectIn key allIds rows)) ids)
        = filter (\<lambda>k. mkMap key (selectIn key allIds rows) k \<noteq> None) ids"
    by (rule map_key_lookupAll) (simp add: mkMap_Some)
  also have "\<dots> = filter (\<lambda>k. k \<in> key ` set rows) ids"
    using sub by (intro filter_cong) (auto simp: mkMap_selectIn_None)
  finally show ?thesis using False by simp
qed

lemma n_id_projTeacher: "map n_id (map projTeacher ts) = map teacher_id ts"
  by (simp add: projTeacher_def)

lemma n_id_projClassroom: "map n_id (map projClassroom cs) = map classroom_id cs"
  by (simp add: projClassroom_def)

lemma enrichBatch_nth:
  assumes i: "i < length lessons"
  shows "length (enrichBatch s lessons) = length lessons"
    and "e_id (enrichBatch s lessons ! i) = lesson_id (lessons ! i)"
    and "map n_id (e_teachers (enrichBatch s lessons ! i))
         = filter (\<lambda>t. t \<in> teacher_id ` set (teacherT s))
             (arrayOrEmpty (teacherIds (lessons ! i)))"
    and "map n_id (e_classrooms (enrichBatch s lessons ! i))
         = filter (\<lambda>c. c \<in> classroom_id ` set (classroomT s))
             (arrayOrEmpty (classroomIds (lessons ! i)))"
    and "e_subject (enrichBatch s lessons ! i) = None
         \<longleftrightarrow> subjectId (lessons ! i) \<notin> subject_id ` set (subjectT s)"
    and "e_period (enrichBatch s lessons ! i) = None
         \<longleftrightarrow> periodId (lessons ! i) \<notin> period_id ` set (periodT s)"
proof -
  let ?l = "lessons ! i"
  define allT where "allT = remdups (concat (map (\<lambda>l. arrayOrEmpty (teacherIds l)) lessons))"
  define allC where "allC = remdups (concat (map (\<lambda>l. arrayOrEmpty (classroomIds l)) lessons))"
  define MS where
    "MS = mkMap subject_id (selectIn subject_id (remdups (map subjectId lessons)) (subjectT s))"
  define MD where
    "MD = mkMap day_id (selectIn day_id (remdups (map dayDefinitionId lessons))
            (dayDefinitionT s))"
  define MP where
    "MP = mkMap period_id (selectIn period_id (remdups (map periodId lessons)) (periodT s))"
  define MT where
    "MT = mkMap teacher_id (if allT = [] then [] else selectIn teacher_id allT (teacherT s))"
  define MC where
    "MC = mkMap classroom_id
            (if allC = [] then [] else selectIn classroom_id allC (classroomT s))"
  have eb: "enrichBatch s lessons = map (enrichLesson MS MD MP MT MC) lessons"
    unfolding enrichBatch_def Let_def MS_def MD_def MP_def MT_def MC_def allT_def allC_def
    by (rule refl)
  have nth: "enrichBatch s lessons ! i = enrichLesson MS MD MP MT MC ?l"
    unfolding eb by (rule nth_map [OF i])
  have lin: "?l \<in> set lessons" using i by simp
  have t: "set (arrayOrEmpty (teacherIds ?l)) \<subseteq> set allT"
    using lin by (auto simp: allT_def)
  have c: "set (arrayOrEmpty (classroomIds ?l)) \<subseteq> set allC"
    using lin by (auto simp: allC_def)
  show "length (enrichBatch s lessons) = length lessons"
    by (simp add: eb)
  show "e_id (enrichBatch s lessons ! i) = lesson_id ?l"
    by (simp add: nth enrichLesson_def Let_def)
  have "map n_id (e_teachers (enrichLesson MS MD MP MT MC ?l))
        = map teacher_id (lookupAll MT (arrayOrEmpty (teacherIds ?l)))"
    by (simp add: enrichLesson_def Let_def projTeacher_def)
  also have "\<dots> = filter (\<lambda>t. t \<in> teacher_id ` set (teacherT s))
                      (arrayOrEmpty (teacherIds ?l))"
    unfolding MT_def by (rule resolved_ids [OF t])
  finally show "map n_id (e_teachers (enrichBatch s lessons ! i))
         = filter (\<lambda>t. t \<in> teacher_id ` set (teacherT s)) (arrayOrEmpty (teacherIds ?l))"
    by (simp only: nth)
  have "map n_id (e_classrooms (enrichLesson MS MD MP MT MC ?l))
        = map classroom_id (lookupAll MC (arrayOrEmpty (classroomIds ?l)))"
    by (simp add: enrichLesson_def Let_def projClassroom_def)
  also have "\<dots> = filter (\<lambda>c. c \<in> classroom_id ` set (classroomT s))
                      (arrayOrEmpty (classroomIds ?l))"
    unfolding MC_def by (rule resolved_ids [OF c])
  finally show "map n_id (e_classrooms (enrichBatch s lessons ! i))
         = filter (\<lambda>c. c \<in> classroom_id ` set (classroomT s)) (arrayOrEmpty (classroomIds ?l))"
    by (simp only: nth)
  show "e_subject (enrichBatch s lessons ! i) = None
         \<longleftrightarrow> subjectId ?l \<notin> subject_id ` set (subjectT s)"
    using lin by (simp add: nth enrichLesson_def Let_def MS_def mkMap_selectIn_None)
  show "e_period (enrichBatch s lessons ! i) = None
         \<longleftrightarrow> periodId ?l \<notin> period_id ` set (periodT s)"
    using lin by (simp add: nth enrichLesson_def Let_def MP_def mkMap_selectIn_None)
qed

lemma getLessonsForCohort_enriches:
  assumes "cid \<noteq> []" "cid \<in> cohort_id ` set (cohortT s)" "\<And>tbl. \<not> flt Select tbl"
  shows "getLessonsForCohort flt (Some cid) s = Inr (enrichBatch s (cohortLessons cid s))"
proof -
  have "filter (\<lambda>co. cohort_id co = cid) (cohortT s) \<noteq> []"
    using assms(2) by (auto simp: filter_empty_conv)
  then obtain co rest where "filter (\<lambda>co. cohort_id co = cid) (cohortT s) = co # rest"
    by (cases "filter (\<lambda>co. cohort_id co = cid) (cohortT s)") auto
  then show ?thesis
    using assms(1,3) by (simp add: getLessonsForCohort_def Let_def enrichBatch_def)
qed

text \<open>
  Claim C8: for every lesson of an enrichment batch, a teacher or classroom id that does
  not resolve is dropped from the lesson's list without failing the record, an unresolvable
  subject or period id yields a null field, and the enriched record is still produced.

  When the cohort exists and no read fails, the handler succeeds with one record per lesson
  of the cohort. The record of a lesson carries the lesson's id; its teachers are, in the
  order of the lesson's teacher ids, those ids that name a row of the teacher table, and
  likewise its classrooms; its subject is null exactly when the subject id names no row,
  and likewise its period.
\<close>

theorem getLessonsForCohort_tolerant_enrichment:
  assumes "cid \<noteq> []" and "cid \<in> cohort_id ` set (cohortT s)"
    and "\<forall>tbl. \<not> flt Select tbl" and "i < length (cohortLessons cid s)"
  shows "\<exists>rs. getLessonsForCohort flt (Some cid) s = Inr rs
           \<and> length rs = length (cohortLessons cid s)
           \<and> e_id (rs ! i) = lesson_id (cohortLessons cid s ! i)
           \<and> map n_id (e_teachers (rs ! i))
               = filter (\<lambda>t. t \<in> teacher_id ` set (teacherT s))
                   (arrayOrEmpty (teacherIds (cohortLessons cid s ! i)))
           \<and> map n_id (e_classrooms (rs ! i))
               = filter (\<lambda>c. c \<in> classroom_id ` set (classroomT s))
                   (arrayOrEmpty (classroomIds (cohortLessons cid s ! i)))
           \<and> (e_subject (rs ! i) = None
                \<longleftrightarrow> subjectId (cohortLessons cid s ! i) \<notin> subject_id ` set (subjectT s))
           \<and> (e_period (rs ! i) = None
                \<longleftrightarrow> periodId (cohortLessons cid s ! i) \<notin> period_id ` set (periodT s))"
proof -
  have g: "getLessonsForCohort flt (Some cid) s = Inr (enrichBatch s (cohortLessons cid s))"
    using assms(1-3) by (intro getLessonsForCohort_enriches) simp_all
  note e = enrichBatch_nth [OF assms(4), of s]
  show ?thesis
    by (rule exI [of _ "enrichBatch s (cohortLessons cid s)"]) (simp add: g e)
qed

theorem getLessonsForCohort_tolerant_enrichment_witness:
  "''K1'' \<noteq> [] \<and> ''K1'' \<in> cohort_id ` set (cohortT schoolDb)
   \<and> (\<forall>tbl. \<not> noFaults Select tbl)
   \<and> cohortLessons ''K1'' schoolDb = [lessonA, lessonB, lessonC]
   \<and> (\<exists>rs. getLessonsForCohort noFaults (Some ''K1'') schoolDb = Inr rs
          \<and> length rs = 3
          \<and> e_id (rs ! 2) = ''L3''
          \<and> map n_id (e_teachers (rs ! 2)) = [''T1'', ''T2'']
          \<and> map n_id (e_classrooms (rs ! 2)) = [''R1'']
          \<and> e_subject (rs ! 2) = None
          \<and> e_period (rs ! 2) = None)"
proof -
  have h1: "''K1'' \<noteq> []" by simp
  have h2: "''K1'' \<in> cohort_id ` set (cohortT schoolDb)" by (simp add: schoolDb_def)
  have h3: "\<forall>tbl. \<not> noFaults Select tbl" by (simp add: noFaults_def)
  have cl: "cohortLessons ''K1'' schoolDb = [lessonA, lessonB, lessonC]"
    by (simp add: cohortLessons_def schoolDb_def lessonA_def lessonB_def lessonC_def)
  have h4: "2 < length (cohortLessons ''K1'' schoolDb)" by (simp add: cl)
  have f: "teacher_id ` set (teacherT schoolDb) = {''T1'', ''T2''}"
    "classroom_id ` set (classroomT schoolDb) = {''R1''}"
    "subject_id ` set (subjectT schoolDb) = {''S1''}"
    "period_id ` set (periodT schoolDb) = {''P1''}"
    by (simp_all add: schoolDb_def teacherT1_def teacherT2_def roomR1_def periodP1_def)
  from getLessonsForCohort_tolerant_enrichment [where flt = noFaults, OF h1 h2 h3 h4]
  have "\<exists>rs. getLessonsForCohort noFaults (Some ''K1'') schoolDb = Inr rs
          \<and> length rs = 3
          \<and> e_id (rs ! 2) = ''L3''
          \<and> map n_id (e_teachers (rs ! 2)) = [''T1'', ''T2'']
          \<and> map n_id (e_classrooms (rs ! 2)) = [''R1'']
          \<and> e_subject (rs ! 2) = None
          \<and> e_period (rs ! 2) = None"
    by (simp add: cl f lessonC_def arrayOrEmpty_def numeral_3_eq_3)
  with h1 h2 h3 cl show ?thesis by blast
qed

subsection \<open>Replacing the links of an override\<close>

lemma bindA_Inr_iff:
  "bindA m f s = (Inr r, s') \<longleftrightarrow> (\<exists>x s1. m s = (Inr x, s1) \<and> f x s1 = (Inr r, s'))"
  by (auto simp: bindA_def split: prod.splits sum.splits)

lemma catchA_Inr_iff:
  "catchA m (\<lambda>x. throwA y) s = (Inr r, s') \<longleftrightarrow> m s = (Inr r, s')"
  by (auto simp: catchA_def throwA_def split: prod.splits sum.splits)

lemma transaction_Inr_iff:
  "transaction m s = (Inr r, s') \<longleftrightarrow> m s = (Inr r, s')"
  by (auto simp: transaction_def split: prod.splits sum.splits)

lemma retA_Inr_iff: "retA x s = (Inr r, s') \<longleftrightarrow> r = x \<and> s' = s"
  by (auto simp: retA_def)

lemma throwA_Inr_iff: "throwA x s = (Inr r, s') \<longleftrightarrow> False"
  by (simp add: throwA_def)

lemma whenA_Inr_iff:
  "whenA c m s = (Inr r, s') \<longleftrightarrow> (if c then m s = (Inr r, s') else s' = s)"
  by (auto simp: whenA_def retA_def)

lemma query_Inr_iff:
  "query e op tbl f s = (Inr r, s') \<longleftrightarrow> \<not> fault e op tbl \<and> r = f s \<and> s' = s"
  by (auto simp: query_def)

lemma exec_Inr_iff:
  "exec e op tbl f s = (Inr r, s') \<longleftrightarrow> \<not> fault e op tbl \<and> f s = (r, s')"
  by (auto simp: exec_def split: prod.splits)

lemma requireParam_Inr_iff:
  "requireParam p x s = (Inr i, s1) \<longleftrightarrow> p = Some i \<and> i \<noteq> [] \<and> s1 = s"
  by (auto simp: requireParam_def throwA_def retA_def split: option.splits if_splits)

lemma readOnly_liftA: "readOnly (liftA r)"
  by (simp add: liftA_def readOnly_retA readOnly_throwA split: sum.split)

lemma readOnly_ifPresent: "(\<And>x. readOnly (f x)) \<Longrightarrow> readOnly (ifPresent v f)"
  by (simp add: ifPresent_def readOnly_retA readOnly_whenA split: option.split)

lemma readOnly_ensurePeriodExists: "readOnly (ensurePeriodExists e x)"
  unfolding ensurePeriodExists_def
  by (auto intro!: readOnly_bindA readOnly_query readOnly_throwA readOnly_retA
      split: list.split)

lemma readOnly_ensureDayDefinitionExists: "readOnly (ensureDayDefinitionExists e x)"
  unfolding ensureDayDefinitionExists_def
  by (auto intro!: readOnly_bindA readOnly_query readOnly_throwA readOnly_retA
      split: list.split)

lemma readOnly_ensureClassroomExists: "readOnly (ensureClassroomExists e x)"
  unfolding ensureClassroomExists_def
  by (auto intro!: readOnly_bindA readOnly_query readOnly_throwA readOnly_retA
      split: list.split)

lemma readOnly_ensureLessonsExist: "readOnly (ensureLessonsExist e ids)"
  unfolding ensureLessonsExist_def Let_def
  by (auto intro!: readOnly_bindA readOnly_query readOnly_throwA readOnly_retA)

lemma readOnly_validate: "readOnly (validateMovedLessonReferences e body)"
  unfolding validateMovedLessonReferences_def
  by (auto intro!: readOnly_bindA readOnly_whenA readOnly_retA
      readOnly_liftA readOnly_ifPresent readOnly_ensurePeriodExists
      readOnly_ensureDayDefinitionExists readOnly_ensureClassroomExists
      readOnly_ensureLessonsExist split: option.split)

lemma validate_keeps_store:
  "validateMovedLessonReferences e body s = (x, s1) \<Longrightarrow> s1 = s"
  using readOnly_validate [of e body] by (auto simp: readOnly_def dest: arg_cong [where f = snd])


lemma case_option_throw_Inr_iff:
  "(case opt of None \<Rightarrow> throwA x | Some y \<Rightarrow> f y) s = (Inr r, s')
   \<longleftrightarrow> (\<exists>y. opt = Some y \<and> f y s = (Inr r, s'))"
  by (cases opt) (simp_all add: throwA_def)

lemma firstRow_Some: "firstRow rows = Some r \<Longrightarrow> r \<in> set rows"
  by (cases rows) (auto simp: firstRow_def)

lemma updateMovedLessonRow_D:
  "updateMovedLessonRow e i body s = (Inr rows, s1)
   \<Longrightarrow> movedLessonLessonMTM s1 = movedLessonLessonMTM s
       \<and> rows = filter (\<lambda>m. ml_id m = i) (movedLessonT s1)"
  by (auto simp: updateMovedLessonRow_def exec_def throwA_def Let_def
      split: option.splits if_splits prod.splits)

lemma deleteMovedLinks_D:
  "deleteMovedLinks e i s = (Inr u, s1)
   \<Longrightarrow> movedLessonLessonMTM s1 = filter (\<lambda>l. mll_movedLessonId l \<noteq> i) (movedLessonLessonMTM s)
       \<and> movedLessonT s1 = movedLessonT s"
  by (auto simp: deleteMovedLinks_def exec_def split: if_splits)

lemma insertMovedLinks_D:
  "insertMovedLinks e i ids s = (Inr u, s1)
   \<Longrightarrow> movedLessonLessonMTM s1 = movedLessonLessonMTM s
         @ map (\<lambda>x. \<lparr>mll_lessonId = x, mll_movedLessonId = i\<rparr>) ids
       \<and> movedLessonT s1 = movedLessonT s"
  by (auto simp: insertMovedLinks_def exec_def throwA_def split: if_splits)

lemma updateMovedLesson_effect:
  assumes ok: "updateMovedLesson e ident body s = (Inr r, s')"
  shows "\<exists>i. ident = Some i \<and> r \<in> set (movedLessonT s') \<and> ml_id r = i \<and>
           (case b_lessonIds body of
              JArr vs \<Rightarrow>
                (\<exists>ids. stringEntries vs = Some ids
                   \<and> movedLessonLessonMTM s'
                       = filter (\<lambda>l. mll_movedLessonId l \<noteq> i) (movedLessonLessonMTM s)
                         @ map (\<lambda>x. \<lparr>mll_lessonId = x, mll_movedLessonId = i\<rparr>) ids)
            | _ \<Rightarrow> movedLessonLessonMTM s' = movedLessonLessonMTM s)"
proof (cases "b_lessonIds body")
  case (JArr vs)
  then show ?thesis
    using ok unfolding updateMovedLesson_def
    by (auto simp: bindA_Inr_iff catchA_Inr_iff retA_Inr_iff throwA_Inr_iff whenA_Inr_iff
        requireParam_Inr_iff case_option_throw_Inr_iff
        dest!: validate_keeps_store updateMovedLessonRow_D deleteMovedLinks_D
          insertMovedLinks_D firstRow_Some
        split: if_splits)
qed (use ok in \<open>auto simp: updateMovedLesson_def bindA_Inr_iff catchA_Inr_iff retA_Inr_iff
        throwA_Inr_iff requireParam_Inr_iff case_option_throw_Inr_iff
        dest!: validate_keeps_store updateMovedLessonRow_D firstRow_Some\<close>)

lemma updateSubstitutionRow_ids:
  "updateSubstitutionRow e i body s = (Inr rows, s1)
   \<Longrightarrow> map sub_id (substitutionT s1) = map sub_id (substitutionT s)"
  by (auto simp: updateSubstitutionRow_def exec_def throwA_def Let_def o_def
      if_distrib [of sub_id] split: option.splits if_splits)

lemma updateSubstitutionRow_D:
  assumes "updateSubstitutionRow e i body s = (Inr rows, s1)"
  shows "substitutionLessonMTM s1 = substitutionLessonMTM s
       \<and> sub_id ` set (substitutionT s1) = sub_id ` set (substitutionT s)"
proof -
  have "set (map sub_id (substitutionT s1)) = set (map sub_id (substitutionT s))"
    using updateSubstitutionRow_ids [OF assms] by simp
  moreover have "substitutionLessonMTM s1 = substitutionLessonMTM s"
    using assms
    by (auto simp: updateSubstitutionRow_def exec_def throwA_def Let_def
        split: option.splits if_splits)
  ultimately show ?thesis by simp
qed

lemma deleteSubLinks_D:
  "deleteSubLinks e i s = (Inr u, s1)
   \<Longrightarrow> substitutionLessonMTM s1
         = filter (\<lambda>l. sl_substitutionId l \<noteq> i) (substitutionLessonMTM s)
       \<and> substitutionT s1 = substitutionT s"
  by (auto simp: deleteSubLinks_def exec_def split: if_splits)

lemma insertSubLinks_D:
  "insertSubLinks e i ids s = (Inr u, s1)
   \<Longrightarrow> substitutionLessonMTM s1 = substitutionLessonMTM s
         @ map (\<lambda>x. \<lparr>sl_lessonId = x, sl_substitutionId = i\<rparr>) ids
       \<and> substitutionT s1 = substitutionT s"
  by (auto simp: insertSubLinks_def exec_def throwA_def split: if_splits)

lemma take1_filter_Nil: "take (Suc 0) (filter P xs) = [] \<longleftrightarrow> (\<forall>x \<in> set xs. \<not> P x)"
proof -
  have "take (Suc 0) (filter P xs) = [] \<longleftrightarrow> filter P xs = []"
    by (cases "filter P xs") auto
  then show ?thesis by (simp add: filter_empty_conv)
qed

lemma updateSubstitution_effect:
  assumes ok: "updateSubstitution e ident body s = (Inr r, s')"
  shows "\<exists>i. ident = Some i \<and> i \<in> sub_id ` set (substitutionT s') \<and>
           (case sb_lessonIds body of
              Some ids \<Rightarrow>
                substitutionLessonMTM s'
                  = filter (\<lambda>l. sl_substitutionId l \<noteq> i) (substitutionLessonMTM s)
                    @ map (\<lambda>x. \<lparr>sl_lessonId = x, sl_substitutionId = i\<rparr>) ids
            | None \<Rightarrow> substitutionLessonMTM s' = substitutionLessonMTM s)"
  using ok unfolding updateSubstitution_def
  by (auto simp: bindA_Inr_iff catchA_Inr_iff transaction_Inr_iff retA_Inr_iff throwA_Inr_iff
      whenA_Inr_iff query_Inr_iff requireParam_Inr_iff countLessons_def filter_empty_conv
      dest!: updateSubstitutionRow_D deleteSubLinks_D insertSubLinks_D
      split: option.splits if_splits)


lemma set_arrayAgg: "set (arrayAgg xs) = {x. Some x \<in> set xs}"
  by (induction xs) (auto simp: arrayAgg_def split: option.splits)

lemma Some_in_leftJoin: "Some x \<in> set (leftJoin P xs) \<longleftrightarrow> x \<in> set xs \<and> P x"
proof (cases "filter P xs")
  case Nil
  then show ?thesis by (auto simp: leftJoin_def filter_empty_conv)
next
  case (Cons y ys)
  have "set (map Some (filter P xs)) = Some ` {x \<in> set xs. P x}" by auto
  with Cons show ?thesis by (auto simp: leftJoin_def)
qed

lemma leftJoin_not_Nil: "leftJoin P xs \<noteq> []"
  by (simp add: leftJoin_def split: list.split)

lemma in_movedJoinRows:
  "(m, p, d, c, l) \<in> set (movedJoinRows s) \<longleftrightarrow>
     m \<in> set (movedLessonT s)
     \<and> p \<in> set (leftJoin (\<lambda>p. eqCol (startingPeriod m) (period_id p)) (periodT s))
     \<and> d \<in> set (leftJoin (\<lambda>d. eqCol (startingDay m) (day_id d)) (dayDefinitionT s))
     \<and> c \<in> set (leftJoin (\<lambda>c. eqCol (room m) (classroom_id c)) (classroomT s))
     \<and> l \<in> set (leftJoin (\<lambda>l. ml_id m = mll_movedLessonId l) (movedLessonLessonMTM s))"
  unfolding movedJoinRows_def by (simp add: image_iff)

lemma in_groupBy:
  "grp \<in> set (groupBy key rows) \<longleftrightarrow> (\<exists>r \<in> set rows. grp = filter (\<lambda>x. key x = key r) rows)"
  by (auto simp: groupBy_def)

lemma in_movedViews:
  assumes "v \<in> set (movedViews agg rows)"
  shows "\<exists>m p d c l. (m, p, d, c, l) \<in> set rows
           \<and> v = \<lparr>v_classroom = c, v_dayDefinition = d,
                  v_lessons = agg (map movedLinkId
                    (filter (\<lambda>r. movedKey r = movedKey (m, p, d, c, l)) rows)),
                  v_movedLesson = m, v_period = p\<rparr>"
proof -
  from assms obtain grp where g: "grp \<in> set (groupBy movedKey rows)"
    and v: "v \<in> set (movedView agg grp)"
    by (auto simp: movedViews_def)
  from g obtain r where r: "r \<in> set rows" and grp: "grp = filter (\<lambda>x. movedKey x = movedKey r) rows"
    by (auto simp: in_groupBy)
  from v obtain m p d c l rest where hd: "grp = (m, p, d, c, l) # rest"
    and veq: "v = \<lparr>v_classroom = c, v_dayDefinition = d, v_lessons = agg (map movedLinkId grp),
                  v_movedLesson = m, v_period = p\<rparr>"
    by (cases grp) (auto simp: movedView_def)
  have "(m, p, d, c, l) \<in> set grp" using hd by simp
  then have inr: "(m, p, d, c, l) \<in> set rows" and k: "movedKey (m, p, d, c, l) = movedKey r"
    unfolding grp by auto
  from k grp have "grp = filter (\<lambda>x. movedKey x = movedKey (m, p, d, c, l)) rows" by simp
  with veq inr show ?thesis by blast
qed

lemma movedViews_has_row:
  assumes "(m, p, d, c, l) \<in> set rows"
  shows "\<exists>v \<in> set (movedViews agg rows). ml_id (v_movedLesson v) = ml_id m"
proof -
  let ?grp = "filter (\<lambda>x. movedKey x = movedKey (m, p, d, c, l)) rows"
  have g: "?grp \<in> set (groupBy movedKey rows)" using assms by (auto simp: in_groupBy)
  have "(m, p, d, c, l) \<in> set ?grp" using assms by simp
  then obtain m' p' d' c' l' rest where hd: "?grp = (m', p', d', c', l') # rest"
    by (cases ?grp) auto
  then have "(m', p', d', c', l') \<in> set ?grp" by simp
  then have "movedKey (m', p', d', c', l') = movedKey (m, p, d, c, l)" by simp
  then have id: "ml_id m' = ml_id m" by (simp add: movedKey_def)
  let ?v = "\<lparr>v_classroom = c', v_dayDefinition = d', v_lessons = agg (map movedLinkId ?grp),
          v_movedLesson = m', v_period = p'\<rparr>"
  have "?v \<in> set (movedView agg ?grp)"
    by (simp add: movedView_def hd)
  with g have "?v \<in> set (movedViews agg rows)"
    unfolding movedViews_def by (simp only: set_concat set_map) blast
  moreover have "ml_id (v_movedLesson ?v) = ml_id m" using id by simp
  ultimately show ?thesis by blast
qed

lemma movedLesson_has_join_row:
  assumes "m \<in> set (movedLessonT s)"
  shows "\<exists>p d c l. (m, p, d, c, l) \<in> set (movedJoinRows s)"
proof -
  have "\<And>P xs. \<exists>x. x \<in> set (leftJoin P xs)"
    using leftJoin_not_Nil by (metis last_in_set)
  then show ?thesis using assms unfolding in_movedJoinRows by metis
qed

lemma getAllMovedLessons_lessons:
  assumes "v \<in> set (movedViews arrayAgg (movedJoinRows s))"
  shows "set (v_lessons v)
         = mll_lessonId ` {l \<in> set (movedLessonLessonMTM s).
                             mll_movedLessonId l = ml_id (v_movedLesson v)}"
proof -
  from in_movedViews [OF assms] obtain m p d c l where
    r: "(m, p, d, c, l) \<in> set (movedJoinRows s)"
    and v: "v = \<lparr>v_classroom = c, v_dayDefinition = d,
                  v_lessons = arrayAgg (map movedLinkId
                    (filter (\<lambda>r. movedKey r = movedKey (m, p, d, c, l)) (movedJoinRows s))),
                  v_movedLesson = m, v_period = p\<rparr>"
    by blast
  let ?grp = "filter (\<lambda>r. movedKey r = movedKey (m, p, d, c, l)) (movedJoinRows s)"
  have "set (arrayAgg (map movedLinkId ?grp))
        = mll_lessonId ` {l \<in> set (movedLessonLessonMTM s). mll_movedLessonId l = ml_id m}"
  proof (intro set_eqI iffI)
    fix x assume "x \<in> set (arrayAgg (map movedLinkId ?grp))"
    then obtain m' p' d' c' l' where in': "(m', p', d', c', l') \<in> set (movedJoinRows s)"
      and k: "movedKey (m', p', d', c', l') = movedKey (m, p, d, c, l)"
      and x: "movedLinkId (m', p', d', c', l') = Some x"
      by (auto simp: set_arrayAgg)
    from x obtain lk where lk: "l' = Some lk" "x = mll_lessonId lk"
      by (auto simp: movedLinkId_def)
    from in' lk have "lk \<in> set (movedLessonLessonMTM s)" "ml_id m' = mll_movedLessonId lk"
      by (simp_all add: in_movedJoinRows Some_in_leftJoin)
    moreover from k have "ml_id m' = ml_id m" by (simp add: movedKey_def)
    ultimately show "x \<in> mll_lessonId ` {l \<in> set (movedLessonLessonMTM s).
                                         mll_movedLessonId l = ml_id m}"
      using lk by auto
  next
    fix x assume "x \<in> mll_lessonId ` {l \<in> set (movedLessonLessonMTM s).
                                         mll_movedLessonId l = ml_id m}"
    then obtain lk where lk: "lk \<in> set (movedLessonLessonMTM s)"
      "mll_movedLessonId lk = ml_id m" "x = mll_lessonId lk" by auto
    from r lk have "(m, p, d, c, Some lk) \<in> set (movedJoinRows s)"
      by (simp add: in_movedJoinRows Some_in_leftJoin)
    moreover have "movedKey (m, p, d, c, Some lk) = movedKey (m, p, d, c, l)"
      by (simp add: movedKey_def)
    ultimately have "(m, p, d, c, Some lk) \<in> set ?grp" by simp
    then have "Some x \<in> set (map movedLinkId ?grp)"
      using lk(3) by (force simp: movedLinkId_def)
    then show "x \<in> set (arrayAgg (map movedLinkId ?grp))" by (simp add: set_arrayAgg)
  qed
  with v show ?thesis by simp
qed


lemma in_subJoinRows:
  "(sb, t, l) \<in> set (subJoinRows s) \<longleftrightarrow>
     sb \<in> set (substitutionT s)
     \<and> t \<in> set (leftJoin (\<lambda>t. eqCol (substituter sb) (teacher_id t)) (teacherT s))
     \<and> l \<in> set (leftJoin (\<lambda>l. sub_id sb = sl_substitutionId l) (substitutionLessonMTM s))"
  unfolding subJoinRows_def by (simp add: image_iff)

lemma in_subViews:
  assumes "v \<in> set (subViews rows)"
  shows "\<exists>sb t l. (sb, t, l) \<in> set rows
           \<and> v = \<lparr>sv_lessons = arrayAgg (map subLinkId
                    (filter (\<lambda>r. subKey r = subKey (sb, t, l)) rows)),
                  sv_substitution = sb, sv_teacher = t\<rparr>"
proof -
  from assms obtain grp where g: "grp \<in> set (groupBy subKey rows)"
    and v: "v \<in> set (subView grp)"
    by (auto simp: subViews_def)
  from g obtain r where r: "r \<in> set rows" and grp: "grp = filter (\<lambda>x. subKey x = subKey r) rows"
    by (auto simp: in_groupBy)
  from v obtain sb t l rest where hd: "grp = (sb, t, l) # rest"
    and veq: "v = \<lparr>sv_lessons = arrayAgg (map subLinkId grp), sv_substitution = sb,
                  sv_teacher = t\<rparr>"
    by (cases grp) (auto simp: subView_def)
  have "(sb, t, l) \<in> set grp" using hd by simp
  then have inr: "(sb, t, l) \<in> set rows" and k: "subKey (sb, t, l) = subKey r"
    unfolding grp by auto
  from k grp have "grp = filter (\<lambda>x. subKey x = subKey (sb, t, l)) rows" by simp
  with veq inr show ?thesis by blast
qed

lemma subViews_has_row:
  assumes "(sb, t, l) \<in> set rows"
  shows "\<exists>v \<in> set (subViews rows). sub_id (sv_substitution v) = sub_id sb"
proof -
  let ?grp = "filter (\<lambda>x. subKey x = subKey (sb, t, l)) rows"
  have g: "?grp \<in> set (groupBy subKey rows)" using assms by (auto simp: in_groupBy)
  have "(sb, t, l) \<in> set ?grp" using assms by simp
  then obtain sb' t' l' rest where hd: "?grp = (sb', t', l') # rest"
    by (cases ?grp) auto
  then have "(sb', t', l') \<in> set ?grp" by simp
  then have "subKey (sb', t', l') = subKey (sb, t, l)" by simp
  then have id: "sub_id sb' = sub_id sb" by (simp add: subKey_def)
  let ?v = "\<lparr>sv_lessons = arrayAgg (map subLinkId ?grp), sv_substitution = sb',
             sv_teacher = t'\<rparr>"
  have "?v \<in> set (subView ?grp)"
    by (simp add: subView_def hd)
  with g have "?v \<in> set (subViews rows)"
    unfolding subViews_def by (simp only: set_concat set_map) blast
  moreover have "sub_id (sv_substitution ?v) = sub_id sb" using id by simp
  ultimately show ?thesis by blast
qed

lemma substitution_has_join_row:
  assumes "sb \<in> set (substitutionT s)"
  shows "\<exists>t l. (sb, t, l) \<in> set (subJoinRows s)"
proof -
  have "\<And>P xs. \<exists>x. x \<in> set (leftJoin P xs)"
    using leftJoin_not_Nil by (metis last_in_set)
  then show ?thesis using assms unfolding in_subJoinRows by metis
qed

lemma getAllSubstitutions_lessons:
  assumes "v \<in> set (subViews (subJoinRows s))"
  shows "set (sv_lessons v)
         = sl_lessonId ` {l \<in> set (substitutionLessonMTM s).
                            sl_substitutionId l = sub_id (sv_substitution v)}"
proof -
  from in_subViews [OF assms] obtain sb t l where
    r: "(sb, t, l) \<in> set (subJoinRows s)"
    and v: "v = \<lparr>sv_lessons = arrayAgg (map subLinkId
                    (filter (\<lambda>r. subKey r = subKey (sb, t, l)) (subJoinRows s))),
                  sv_substitution = sb, sv_teacher = t\<rparr>"
    by blast
  let ?grp = "filter (\<lambda>r. subKey r = subKey (sb, t, l)) (subJoinRows s)"
  have "set (arrayAgg (map subLinkId ?grp))
        = sl_lessonId ` {l \<in> set (substitutionLessonMTM s). sl_substitutionId l = sub_id sb}"
  proof (intro set_eqI iffI)
    fix x assume "x \<in> set (arrayAgg (map subLinkId ?grp))"
    then obtain sb' t' l' where in': "(sb', t', l') \<in> set (subJoinRows s)"
      and k: "subKey (sb', t', l') = subKey (sb, t, l)"
      and x: "subLinkId (sb', t', l') = Some x"
      by (auto simp: set_arrayAgg)
    from x obtain lk where lk: "l' = Some lk" "x = sl_lessonId lk"
      by (auto simp: subLinkId_def)
    from in' lk have "lk \<in> set (substitutionLessonMTM s)" "sub_id sb' = sl_substitutionId lk"
      by (simp_all add: in_subJoinRows Some_in_leftJoin)
    moreover from k have "sub_id sb' = sub_id sb" by (simp add: subKey_def)
    ultimately show "x \<in> sl_lessonId ` {l \<in> set (substitutionLessonMTM s).
                                        sl_substitutionId l = sub_id sb}"
      using lk by auto
  next
    fix x assume "x \<in> sl_lessonId ` {l \<in> set (substitutionLessonMTM s).
                                        sl_substitutionId l = sub_id sb}"
    then obtain lk where lk: "lk \<in> set (substitutionLessonMTM s)"
      "sl_substitutionId lk = sub_id sb" "x = sl_lessonId lk" by auto
    from r lk have "(sb, t, Some lk) \<in> set (subJoinRows s)"
      by (simp add: in_subJoinRows Some_in_leftJoin)
    moreover have "subKey (sb, t, Some lk) = subKey (sb, t, l)"
      by (simp add: subKey_def)
    ultimately have "(sb, t, Some lk) \<in> set ?grp" by simp
    then have "Some x \<in> set (map subLinkId ?grp)"
      using lk(3) by (force simp: subLinkId_def)
    then show "x \<in> set (arrayAgg (map subLinkId ?grp))" by (simp add: set_arrayAgg)
  qed
  with v show ?thesis by simp
qed

lemma arrayAgg_Some: "arrayAgg (map Some zs) = zs"
  by (induction zs) (simp_all add: arrayAgg_def)

lemma arrayAgg_leftJoin:
  "arrayAgg (map (map_option f) (leftJoin P xs)) = map f (filter P xs)"
proof (cases "filter P xs")
  case Nil
  then show ?thesis by (simp add: leftJoin_def arrayAgg_def)
next
  case (Cons y ys)
  have "map (map_option f) (map Some (y # ys)) = map Some (map f (y # ys))" by simp
  then have "arrayAgg (map (map_option f) (map Some (y # ys))) = map f (y # ys)"
    by (simp only: arrayAgg_Some)
  with Cons show ?thesis by (simp add: leftJoin_def)
qed

lemma filter_key_unique:
  "distinct (map key xs) \<Longrightarrow> length (filter (\<lambda>x. key x = k) xs) \<le> Suc 0"
proof (induction xs)
  case Nil
  then show ?case by simp
next
  case (Cons x xs)
  show ?case
  proof (cases "key x = k")
    case True
    with Cons.prems have "filter (\<lambda>y. key y = k) xs = []"
      by (auto simp: filter_empty_conv image_iff)
    with True show ?thesis by simp
  next
    case False
    with Cons show ?thesis by simp
  qed
qed

lemma leftJoin_single:
  assumes "distinct (map key xs)"
  shows "\<exists>z. leftJoin (\<lambda>x. eqCol a (key x)) xs = [z]"
proof (cases a)
  case None
  then show ?thesis by (simp add: leftJoin_def eqCol_def)
next
  case (Some k)
  have e: "(\<lambda>x. eqCol (Some k) (key x)) = (\<lambda>x. key x = k)"
    by (auto simp: eqCol_def)
  have "length (filter (\<lambda>x. key x = k) xs) \<le> Suc 0"
    using filter_key_unique [OF assms] .
  then show ?thesis
    unfolding Some e by (cases "filter (\<lambda>x. key x = k) xs") (auto simp: leftJoin_def)
qed

lemma concat_map_only:
  assumes "distinct xs" "x \<in> set xs"
  shows "concat (map (\<lambda>y. if y = x then g y else []) xs) = g x"
  using assms
proof (induction xs)
  case Nil
  then show ?case by simp
next
  case (Cons y ys)
  show ?case
  proof (cases "y = x")
    case True
    with Cons.prems have "x \<notin> set ys" by simp
    then have "concat (map (\<lambda>y. if y = x then g y else []) ys) = []"
      by (induction ys) auto
    with True show ?thesis by simp
  next
    case False
    with Cons show ?thesis by simp
  qed
qed

text \<open>When the ids of the tables are unique, the aggregate of a group is the list of the
  override's link rows, one id per row and in the order of the rows.\<close>

lemma movedJoinRows_blocks:
  "movedJoinRows s = concat (map (\<lambda>m.
      [(m, p, d, c, l).
        p \<leftarrow> leftJoin (\<lambda>p. eqCol (startingPeriod m) (period_id p)) (periodT s),
        d \<leftarrow> leftJoin (\<lambda>d. eqCol (startingDay m) (day_id d)) (dayDefinitionT s),
        c \<leftarrow> leftJoin (\<lambda>c. eqCol (room m) (classroom_id c)) (classroomT s),
        l \<leftarrow> leftJoin (\<lambda>l. ml_id m = mll_movedLessonId l) (movedLessonLessonMTM s)])
      (movedLessonT s))"
  by (simp add: movedJoinRows_def)

lemma moved_block_single:
  assumes "distinct (map period_id (periodT s))"
    "distinct (map day_id (dayDefinitionT s))"
    "distinct (map classroom_id (classroomT s))"
  shows "\<exists>p d c.
     [(m, p, d, c, l).
        p \<leftarrow> leftJoin (\<lambda>p. eqCol (startingPeriod m) (period_id p)) (periodT s),
        d \<leftarrow> leftJoin (\<lambda>d. eqCol (startingDay m) (day_id d)) (dayDefinitionT s),
        c \<leftarrow> leftJoin (\<lambda>c. eqCol (room m) (classroom_id c)) (classroomT s),
        l \<leftarrow> leftJoin (\<lambda>l. ml_id m = mll_movedLessonId l) (movedLessonLessonMTM s)]
     = map (\<lambda>l. (m, p, d, c, l))
         (leftJoin (\<lambda>l. ml_id m = mll_movedLessonId l) (movedLessonLessonMTM s))"
proof -
  from leftJoin_single [OF assms(1)] obtain p where
    p: "leftJoin (\<lambda>p. eqCol (startingPeriod m) (period_id p)) (periodT s) = [p]" by blast
  from leftJoin_single [OF assms(2)] obtain d where
    d: "leftJoin (\<lambda>d. eqCol (startingDay m) (day_id d)) (dayDefinitionT s) = [d]" by blast
  from leftJoin_single [OF assms(3)] obtain c where
    c: "leftJoin (\<lambda>c. eqCol (room m) (classroom_id c)) (classroomT s) = [c]" by blast
  show ?thesis by (simp add: p d c)
qed

lemma moved_group_exact:
  assumes pk: "distinct (map ml_id (movedLessonT s))"
    "distinct (map period_id (periodT s))"
    "distinct (map day_id (dayDefinitionT s))"
    "distinct (map classroom_id (classroomT s))"
    and r: "(m, p, d, c, l) \<in> set (movedJoinRows s)"
  shows "arrayAgg (map movedLinkId
           (filter (\<lambda>r. movedKey r = movedKey (m, p, d, c, l)) (movedJoinRows s)))
         = map mll_lessonId
             (filter (\<lambda>l. mll_movedLessonId l = ml_id m) (movedLessonLessonMTM s))"
proof -
  let ?J = "\<lambda>m. leftJoin (\<lambda>l. ml_id m = mll_movedLessonId l) (movedLessonLessonMTM s)"
  let ?B = "\<lambda>m. [(m, p, d, c, l).
        p \<leftarrow> leftJoin (\<lambda>p. eqCol (startingPeriod m) (period_id p)) (periodT s),
        d \<leftarrow> leftJoin (\<lambda>d. eqCol (startingDay m) (day_id d)) (dayDefinitionT s),
        c \<leftarrow> leftJoin (\<lambda>c. eqCol (room m) (classroom_id c)) (classroomT s),
        l \<leftarrow> ?J m]"
  let ?k = "movedKey (m, p, d, c, l)"
  have min: "m \<in> set (movedLessonT s)" using r by (simp add: in_movedJoinRows)
  have dm: "distinct (movedLessonT s)" using pk(1) by (simp add: distinct_map)
  from moved_block_single [OF pk(2-4), of m] obtain p0 d0 c0 where
    bm: "?B m = map (\<lambda>l. (m, p0, d0, c0, l)) (?J m)" by blast
  have "(m, p, d, c, l) \<in> set (?B m)" using r by (simp add: in_movedJoinRows image_iff)
  then have pdc: "p = p0" "d = d0" "c = c0" unfolding bm by auto
  have own: "filter (\<lambda>r. movedKey r = ?k) (?B m) = ?B m"
    unfolding bm by (simp add: movedKey_def pdc)
  have other: "filter (\<lambda>r. movedKey r = ?k) (?B m') = []"
    if "m' \<in> set (movedLessonT s)" "m' \<noteq> m" for m'
  proof -
    have "ml_id m' \<noteq> ml_id m"
      using pk(1) that min by (meson distinct_map inj_onD)
    then show ?thesis
      by (auto simp: filter_empty_conv movedKey_def)
  qed
  have "filter (\<lambda>r. movedKey r = ?k) (movedJoinRows s)
        = concat (map (\<lambda>m'. filter (\<lambda>r. movedKey r = ?k) (?B m')) (movedLessonT s))"
    unfolding movedJoinRows_blocks by (simp add: filter_concat o_def)
  also have "\<dots> = concat (map (\<lambda>m'. if m' = m then ?B m' else []) (movedLessonT s))"
    by (intro arg_cong [where f = concat] map_cong refl) (auto simp: own other)
  also have "\<dots> = ?B m" using concat_map_only [OF dm min] .
  finally have f: "filter (\<lambda>r. movedKey r = ?k) (movedJoinRows s) = ?B m" .
  have "map movedLinkId (?B m) = map (map_option mll_lessonId) (?J m)"
    unfolding bm by (simp add: movedLinkId_def o_def)
  then have agg: "arrayAgg (map movedLinkId (?B m))
             = map mll_lessonId (filter (\<lambda>l. ml_id m = mll_movedLessonId l)
                 (movedLessonLessonMTM s))"
    by (simp only: arrayAgg_leftJoin)
  have flt: "filter (\<lambda>l. ml_id m = mll_movedLessonId l) (movedLessonLessonMTM s)
             = filter (\<lambda>l. mll_movedLessonId l = ml_id m) (movedLessonLessonMTM s)"
    by (rule filter_cong) auto
  show ?thesis by (simp only: f agg flt)
qed

lemma getAllMovedLessons_lessons_exact:
  assumes pk: "distinct (map ml_id (movedLessonT s))"
    "distinct (map period_id (periodT s))"
    "distinct (map day_id (dayDefinitionT s))"
    "distinct (map classroom_id (classroomT s))"
    and v: "v \<in> set (movedViews arrayAgg (movedJoinRows s))"
  shows "v_lessons v
         = map mll_lessonId
             (filter (\<lambda>l. mll_movedLessonId l = ml_id (v_movedLesson v))
                (movedLessonLessonMTM s))"
proof -
  from in_movedViews [OF v] obtain m p d c l where
    r: "(m, p, d, c, l) \<in> set (movedJoinRows s)"
    and veq: "v = \<lparr>v_classroom = c, v_dayDefinition = d,
                  v_lessons = arrayAgg (map movedLinkId
                    (filter (\<lambda>r. movedKey r = movedKey (m, p, d, c, l)) (movedJoinRows s))),
                  v_movedLesson = m, v_period = p\<rparr>"
    by blast
  from moved_group_exact [OF pk r] veq show ?thesis by simp
qed

lemma subJoinRows_blocks:
  "subJoinRows s = concat (map (\<lambda>sb.
      [(sb, t, l).
        t \<leftarrow> leftJoin (\<lambda>t. eqCol (substituter sb) (teacher_id t)) (teacherT s),
        l \<leftarrow> leftJoin (\<lambda>l. sub_id sb = sl_substitutionId l) (substitutionLessonMTM s)])
      (substitutionT s))"
  by (simp add: subJoinRows_def)

lemma sub_group_exact:
  assumes pk: "distinct (map sub_id (substitutionT s))"
    "distinct (map teacher_id (teacherT s))"
    and r: "(sb, t, l) \<in> set (subJoinRows s)"
  shows "arrayAgg (map subLinkId
           (filter (\<lambda>r. subKey r = subKey (sb, t, l)) (subJoinRows s)))
         = map sl_lessonId
             (filter (\<lambda>l. sl_substitutionId l = sub_id sb) (substitutionLessonMTM s))"
proof -
  let ?J = "\<lambda>sb. leftJoin (\<lambda>l. sub_id sb = sl_substitutionId l) (substitutionLessonMTM s)"
  let ?B = "\<lambda>sb. [(sb, t, l).
        t \<leftarrow> leftJoin (\<lambda>t. eqCol (substituter sb) (teacher_id t)) (teacherT s),
        l \<leftarrow> ?J sb]"
  let ?k = "subKey (sb, t, l)"
  have min: "sb \<in> set (substitutionT s)" using r by (simp add: in_subJoinRows)
  have dm: "distinct (substitutionT s)" using pk(1) by (simp add: distinct_map)
  from leftJoin_single [OF pk(2)] obtain t0 where
    t0: "leftJoin (\<lambda>t. eqCol (substituter sb) (teacher_id t)) (teacherT s) = [t0]" by blast
  have bm: "?B sb = map (\<lambda>l. (sb, t0, l)) (?J sb)" by (simp add: t0)
  have "(sb, t, l) \<in> set (?B sb)" using r by (simp add: in_subJoinRows image_iff)
  then have tt: "t = t0" unfolding bm by auto
  have own: "filter (\<lambda>r. subKey r = ?k) (?B sb) = ?B sb"
    unfolding bm by (simp add: subKey_def tt)
  have other: "filter (\<lambda>r. subKey r = ?k) (?B sb') = []"
    if "sb' \<in> set (substitutionT s)" "sb' \<noteq> sb" for sb'
  proof -
    have "sub_id sb' \<noteq> sub_id sb"
      using pk(1) that min by (meson distinct_map inj_onD)
    then show ?thesis
      by (auto simp: filter_empty_conv subKey_def)
  qed
  have "filter (\<lambda>r. subKey r = ?k) (subJoinRows s)
        = concat (map (\<lambda>sb'. filter (\<lambda>r. subKey r = ?k) (?B sb')) (substitutionT s))"
    unfolding subJoinRows_blocks by (simp add: filter_concat o_def)
  also have "\<dots> = concat (map (\<lambda>sb'. if sb' = sb then ?B sb' else []) (substitutionT s))"
    by (intro arg_cong [where f = concat] map_cong refl) (auto simp: own other)
  also have "\<dots> = ?B sb" using concat_map_only [OF dm min] .
  finally have f: "filter (\<lambda>r. subKey r = ?k) (subJoinRows s) = ?B sb" .
  have "map subLinkId (?B sb) = map (map_option sl_lessonId) (?J sb)"
    unfolding bm by (simp add: subLinkId_def o_def)
  then have agg: "arrayAgg (map subLinkId (?B sb))
             = map sl_lessonId (filter (\<lambda>l. sub_id sb = sl_substitutionId l)
                 (substitutionLessonMTM s))"
    by (simp only: arrayAgg_leftJoin)
  have flt: "filter (\<lambda>l. sub_id sb = sl_substitutionId l) (substitutionLessonMTM s)
             = filter (\<lambda>l. sl_substitutionId l = sub_id sb) (substitutionLessonMTM s)"
    by (rule filter_cong) auto
  show ?thesis by (simp only: f agg flt)
qed

lemma getAllSubstitutions_lessons_exact:
  assumes pk: "distinct (map sub_id (substitutionT s))"
    "distinct (map teacher_id (teacherT s))"
    and v: "v \<in> set (subViews (subJoinRows s))"
  shows "sv_lessons v
         = map sl_lessonId
             (filter (\<lambda>l. sl_substitutionId l = sub_id (sv_substitution v))
                (substitutionLessonMTM s))"
proof -
  from in_subViews [OF v] obtain sb t l where
    r: "(sb, t, l) \<in> set (subJoinRows s)"
    and veq: "v = \<lparr>sv_lessons = arrayAgg (map subLinkId
                    (filter (\<lambda>r. subKey r = subKey (sb, t, l)) (subJoinRows s))),
                  sv_substitution = sb, sv_teacher = t\<rparr>"
    by blast
  from sub_group_exact [OF pk r] veq show ?thesis by simp
qed

lemma moved_links_replaced:
  assumes l: "movedLessonLessonMTM s'
               = filter (\<lambda>l. mll_movedLessonId l \<noteq> i) (movedLessonLessonMTM s)
                 @ map (\<lambda>x. \<lparr>mll_lessonId = x, mll_movedLessonId = i\<rparr>) ids"
  shows "map mll_lessonId (filter (\<lambda>l. mll_movedLessonId l = i) (movedLessonLessonMTM s')) = ids"
    and "filter (\<lambda>l. mll_movedLessonId l \<noteq> i) (movedLessonLessonMTM s')
         = filter (\<lambda>l. mll_movedLessonId l \<noteq> i) (movedLessonLessonMTM s)"
  by (simp_all add: l o_def)

lemma sub_links_replaced:
  assumes l: "substitutionLessonMTM s'
               = filter (\<lambda>l. sl_substitutionId l \<noteq> i) (substitutionLessonMTM s)
                 @ map (\<lambda>x. \<lparr>sl_lessonId = x, sl_substitutionId = i\<rparr>) ids"
  shows "map sl_lessonId (filter (\<lambda>l. sl_substitutionId l = i) (substitutionLessonMTM s')) = ids"
    and "filter (\<lambda>l. sl_substitutionId l \<noteq> i) (substitutionLessonMTM s')
         = filter (\<lambda>l. sl_substitutionId l \<noteq> i) (substitutionLessonMTM s)"
  by (simp_all add: l o_def)

lemma moved_read_after:
  assumes r: "r \<in> set (movedLessonT s')" "ml_id r = i"
    and l: "map mll_lessonId (filter (\<lambda>l. mll_movedLessonId l = i) (movedLessonLessonMTM s')) = ids"
  shows "\<exists>views. getAllMovedLessons noFaults s' = Inr views
           \<and> (\<exists>v \<in> set views. ml_id (v_movedLesson v) = i)
           \<and> (\<forall>v \<in> set views. ml_id (v_movedLesson v) = i \<longrightarrow> set (v_lessons v) = set ids)
           \<and> (primaryKeys s' \<longrightarrow>
                (\<forall>v \<in> set views. ml_id (v_movedLesson v) = i \<longrightarrow> v_lessons v = ids))"
proof -
  let ?views = "movedViews arrayAgg (movedJoinRows s')"
  have g: "getAllMovedLessons noFaults s' = Inr ?views"
    by (simp add: getAllMovedLessons_def noFaults_def)
  from movedLesson_has_join_row [OF r(1)] obtain p d c lk
    where "(r, p, d, c, lk) \<in> set (movedJoinRows s')" by blast
  from movedViews_has_row [OF this] r(2)
  have ex: "\<exists>v \<in> set ?views. ml_id (v_movedLesson v) = i" by simp
  have all: "\<forall>v \<in> set ?views. ml_id (v_movedLesson v) = i \<longrightarrow> set (v_lessons v) = set ids"
  proof (intro ballI impI)
    fix v assume v: "v \<in> set ?views" and vi: "ml_id (v_movedLesson v) = i"
    have "set (v_lessons v)
          = mll_lessonId ` {l \<in> set (movedLessonLessonMTM s'). mll_movedLessonId l = i}"
      using getAllMovedLessons_lessons [OF v] vi by simp
    also have "\<dots> = set (map mll_lessonId
                       (filter (\<lambda>l. mll_movedLessonId l = i) (movedLessonLessonMTM s')))"
      by simp
    finally show "set (v_lessons v) = set ids" by (simp only: l)
  qed
  have exact: "primaryKeys s' \<longrightarrow>
                (\<forall>v \<in> set ?views. ml_id (v_movedLesson v) = i \<longrightarrow> v_lessons v = ids)"
  proof (intro impI ballI)
    fix v assume pk: "primaryKeys s'" and v: "v \<in> set ?views"
      and vi: "ml_id (v_movedLesson v) = i"
    from pk have d: "distinct (map ml_id (movedLessonT s'))"
      "distinct (map period_id (periodT s'))"
      "distinct (map day_id (dayDefinitionT s'))"
      "distinct (map classroom_id (classroomT s'))"
      by (simp_all add: primaryKeys_def)
    from getAllMovedLessons_lessons_exact [OF d v] vi l show "v_lessons v = ids" by simp
  qed
  from g ex all exact show ?thesis by blast
qed

lemma sub_read_after:
  assumes r: "i \<in> sub_id ` set (substitutionT s')"
    and l: "map sl_lessonId (filter (\<lambda>l. sl_substitutionId l = i) (substitutionLessonMTM s')) = ids"
  shows "\<exists>views. getAllSubstitutions noFaults s' = Inr views
           \<and> (\<exists>v \<in> set views. sub_id (sv_substitution v) = i)
           \<and> (\<forall>v \<in> set views. sub_id (sv_substitution v) = i \<longrightarrow> set (sv_lessons v) = set ids)
           \<and> (primaryKeys s' \<longrightarrow>
                (\<forall>v \<in> set views. sub_id (sv_substitution v) = i \<longrightarrow> sv_lessons v = ids))"
proof -
  let ?views = "subViews (subJoinRows s')"
  have g: "getAllSubstitutions noFaults s' = Inr ?views"
    by (simp add: getAllSubstitutions_def noFaults_def)
  from r obtain sb where sb: "sb \<in> set (substitutionT s')" "sub_id sb = i" by auto
  from substitution_has_join_row [OF sb(1)] obtain t lk
    where "(sb, t, lk) \<in> set (subJoinRows s')" by blast
  from subViews_has_row [OF this] sb(2)
  have ex: "\<exists>v \<in> set ?views. sub_id (sv_substitution v) = i" by simp
  have all: "\<forall>v \<in> set ?views. sub_id (sv_substitution v) = i \<longrightarrow> set (sv_lessons v) = set ids"
  proof (intro ballI impI)
    fix v assume v: "v \<in> set ?views" and vi: "sub_id (sv_substitution v) = i"
    have "set (sv_lessons v)
          = sl_lessonId ` {l \<in> set (substitutionLessonMTM s'). sl_substitutionId l = i}"
      using getAllSubstitutions_lessons [OF v] vi by simp
    also have "\<dots> = set (map sl_lessonId
                       (filter (\<lambda>l. sl_substitutionId l = i) (substitutionLessonMTM s')))"
      by simp
    finally show "set (sv_lessons v) = set ids" by (simp only: l)
  qed
  have exact: "primaryKeys s' \<longrightarrow>
                (\<forall>v \<in> set ?views. sub_id (sv_substitution v) = i \<longrightarrow> sv_lessons v = ids)"
  proof (intro impI ballI)
    fix v assume pk: "primaryKeys s'" and v: "v \<in> set ?views"
      and vi: "sub_id (sv_substitution v) = i"
    from pk have d: "distinct (map sub_id (substitutionT s'))"
      "distinct (map teacher_id (teacherT s'))"
      by (simp_all add: primaryKeys_def)
    from getAllSubstitutions_lessons_exact [OF d v] vi l show "sv_lessons v = ids" by simp
  qed
  from g ex all exact show ?thesis by blast
qed

text \<open>
  What an update that succeeds does to the links. With an array of lesson ids, the link rows
  of the override are afterwards exactly the ids of the array, in its order; the link rows of
  every other override are untouched; and \<^verbatim>\<open>getAllMovedLessons\<close>
  (\<^verbatim>\<open>getAllSubstitutions\<close>) has a row for the override, each such row listing the ids of
  the array and no other, and listing exactly the array when the ids of the tables are unique.
  Without an array the link table is unchanged.
\<close>

lemma update_links_when_ok:
  "(updateMovedLesson e ident mb s = (Inr r, s') \<longrightarrow>
      (\<exists>i. ident = Some i \<and>
         (case b_lessonIds mb of
            JArr vs \<Rightarrow>
              (\<exists>ids. stringEntries vs = Some ids
                 \<and> map mll_lessonId
                     (filter (\<lambda>l. mll_movedLessonId l = i) (movedLessonLessonMTM s')) = ids
                 \<and> filter (\<lambda>l. mll_movedLessonId l \<noteq> i) (movedLessonLessonMTM s')
                     = filter (\<lambda>l. mll_movedLessonId l \<noteq> i) (movedLessonLessonMTM s)
                 \<and> (\<exists>views. getAllMovedLessons noFaults s' = Inr views
                       \<and> (\<exists>v \<in> set views. ml_id (v_movedLesson v) = i)
                       \<and> (\<forall>v \<in> set views. ml_id (v_movedLesson v) = i
                              \<longrightarrow> set (v_lessons v) = set ids)
                       \<and> (primaryKeys s' \<longrightarrow>
                            (\<forall>v \<in> set views. ml_id (v_movedLesson v) = i
                               \<longrightarrow> v_lessons v = ids))))
          | _ \<Rightarrow> movedLessonLessonMTM s' = movedLessonLessonMTM s)))
   \<and> (updateSubstitution e2 ident2 sb t = (Inr r2, t') \<longrightarrow>
      (\<exists>i. ident2 = Some i \<and>
         (case sb_lessonIds sb of
            Some ids \<Rightarrow>
              map sl_lessonId
                (filter (\<lambda>l. sl_substitutionId l = i) (substitutionLessonMTM t')) = ids
              \<and> filter (\<lambda>l. sl_substitutionId l \<noteq> i) (substitutionLessonMTM t')
                  = filter (\<lambda>l. sl_substitutionId l \<noteq> i) (substitutionLessonMTM t)
              \<and> (\<exists>views. getAllSubstitutions noFaults t' = Inr views
                    \<and> (\<exists>v \<in> set views. sub_id (sv_substitution v) = i)
                    \<and> (\<forall>v \<in> set views. sub_id (sv_substitution v) = i
                           \<longrightarrow> set (sv_lessons v) = set ids)
                    \<and> (primaryKeys t' \<longrightarrow>
                         (\<forall>v \<in> set views. sub_id (sv_substitution v) = i
                            \<longrightarrow> sv_lessons v = ids)))
          | None \<Rightarrow> substitutionLessonMTM t' = substitutionLessonMTM t)))"
proof (intro conjI impI)
  assume ok: "updateMovedLesson e ident mb s = (Inr r, s')"
  from updateMovedLesson_effect [OF ok] obtain i where i: "ident = Some i"
    and r: "r \<in> set (movedLessonT s')" "ml_id r = i"
    and c: "(case b_lessonIds mb of
              JArr vs \<Rightarrow>
                (\<exists>ids. stringEntries vs = Some ids
                   \<and> movedLessonLessonMTM s'
                       = filter (\<lambda>l. mll_movedLessonId l \<noteq> i) (movedLessonLessonMTM s)
                         @ map (\<lambda>x. \<lparr>mll_lessonId = x, mll_movedLessonId = i\<rparr>) ids)
            | _ \<Rightarrow> movedLessonLessonMTM s' = movedLessonLessonMTM s)"
    by blast
  have "(case b_lessonIds mb of
            JArr vs \<Rightarrow>
              (\<exists>ids. stringEntries vs = Some ids
                 \<and> map mll_lessonId
                     (filter (\<lambda>l. mll_movedLessonId l = i) (movedLessonLessonMTM s')) = ids
                 \<and> filter (\<lambda>l. mll_movedLessonId l \<noteq> i) (movedLessonLessonMTM s')
                     = filter (\<lambda>l. mll_movedLessonId l \<noteq> i) (movedLessonLessonMTM s)
                 \<and> (\<exists>views. getAllMovedLessons noFaults s' = Inr views
                       \<and> (\<exists>v \<in> set views. ml_id (v_movedLesson v) = i)
                       \<and> (\<forall>v \<in> set views. ml_id (v_movedLesson v) = i
                              \<longrightarrow> set (v_lessons v) = set ids)
                       \<and> (primaryKeys s' \<longrightarrow>
                            (\<forall>v \<in> set views. ml_id (v_movedLesson v) = i
                               \<longrightarrow> v_lessons v = ids))))
          | _ \<Rightarrow> movedLessonLessonMTM s' = movedLessonLessonMTM s)"
  proof (cases "b_lessonIds mb")
    case (JArr vs)
    with c obtain ids where se: "stringEntries vs = Some ids"
      and l: "movedLessonLessonMTM s'
               = filter (\<lambda>l. mll_movedLessonId l \<noteq> i) (movedLessonLessonMTM s)
                 @ map (\<lambda>x. \<lparr>mll_lessonId = x, mll_movedLessonId = i\<rparr>) ids"
      by auto
    note a = moved_links_replaced [OF l]
    from se a moved_read_after [OF r a(1)] JArr show ?thesis by simp
  qed (use c in simp_all)
  with i show "\<exists>i. ident = Some i \<and>
         (case b_lessonIds mb of
            JArr vs \<Rightarrow>
              (\<exists>ids. stringEntries vs = Some ids
                 \<and> map mll_lessonId
                     (filter (\<lambda>l. mll_movedLessonId l = i) (movedLessonLessonMTM s')) = ids
                 \<and> filter (\<lambda>l. mll_movedLessonId l \<noteq> i) (movedLessonLessonMTM s')
                     = filter (\<lambda>l. mll_movedLessonId l \<noteq> i) (movedLessonLessonMTM s)
                 \<and> (\<exists>views. getAllMovedLessons noFaults s' = Inr views
                       \<and> (\<exists>v \<in> set views. ml_id (v_movedLesson v) = i)
                       \<and> (\<forall>v \<in> set views. ml_id (v_movedLesson v) = i
                              \<longrightarrow> set (v_lessons v) = set ids)
                       \<and> (primaryKeys s' \<longrightarrow>
                            (\<forall>v \<in> set views. ml_id (v_movedLesson v) = i
                               \<longrightarrow> v_lessons v = ids))))
          | _ \<Rightarrow> movedLessonLessonMTM s' = movedLessonLessonMTM s)"
    by blast
next
  assume ok: "updateSubstitution e2 ident2 sb t = (Inr r2, t')"
  from updateSubstitution_effect [OF ok] obtain i where i: "ident2 = Some i"
    and r: "i \<in> sub_id ` set (substitutionT t')"
    and c: "(case sb_lessonIds sb of
              Some ids \<Rightarrow>
                substitutionLessonMTM t'
                  = filter (\<lambda>l. sl_substitutionId l \<noteq> i) (substitutionLessonMTM t)
                    @ map (\<lambda>x. \<lparr>sl_lessonId = x, sl_substitutionId = i\<rparr>) ids
            | None \<Rightarrow> substitutionLessonMTM t' = substitutionLessonMTM t)"
    by blast
  have "(case sb_lessonIds sb of
            Some ids \<Rightarrow>
              map sl_lessonId
                (filter (\<lambda>l. sl_substitutionId l = i) (substitutionLessonMTM t')) = ids
              \<and> filter (\<lambda>l. sl_substitutionId l \<noteq> i) (substitutionLessonMTM t')
                  = filter (\<lambda>l. sl_substitutionId l \<noteq> i) (substitutionLessonMTM t)
              \<and> (\<exists>views. getAllSubstitutions noFaults t' = Inr views
                    \<and> (\<exists>v \<in> set views. sub_id (sv_substitution v) = i)
                    \<and> (\<forall>v \<in> set views. sub_id (sv_substitution v) = i
                           \<longrightarrow> set (sv_lessons v) = set ids)
                    \<and> (primaryKeys t' \<longrightarrow>
                         (\<forall>v \<in> set views. sub_id (sv_substitution v) = i
                            \<longrightarrow> sv_lessons v = ids)))
          | None \<Rightarrow> substitutionLessonMTM t' = substitutionLessonMTM t)"
  proof (cases "sb_lessonIds sb")
    case (Some ids)
    with c have l: "substitutionLessonMTM t'
                  = filter (\<lambda>l. sl_substitutionId l \<noteq> i) (substitutionLessonMTM t)
                    @ map (\<lambda>x. \<lparr>sl_lessonId = x, sl_substitutionId = i\<rparr>) ids"
      by simp
    note a = sub_links_replaced [OF l]
    from a sub_read_after [OF r a(1)] Some show ?thesis by simp
  qed (use c in simp_all)
  with i show "\<exists>i. ident2 = Some i \<and>
         (case sb_lessonIds sb of
            Some ids \<Rightarrow>
              map sl_lessonId
                (filter (\<lambda>l. sl_substitutionId l = i) (substitutionLessonMTM t')) = ids
              \<and> filter (\<lambda>l. sl_substitutionId l \<noteq> i) (substitutionLessonMTM t')
                  = filter (\<lambda>l. sl_substitutionId l \<noteq> i) (substitutionLessonMTM t)
              \<and> (\<exists>views. getAllSubstitutions noFaults t' = Inr views
                    \<and> (\<exists>v \<in> set views. sub_id (sv_substitution v) = i)
                    \<and> (\<forall>v \<in> set views. sub_id (sv_substitution v) = i
                           \<longrightarrow> set (sv_lessons v) = set ids)
                    \<and> (primaryKeys t' \<longrightarrow>
                         (\<forall>v \<in> set views. sub_id (sv_substitution v) = i
                            \<longrightarrow> sv_lessons v = ids)))
          | None \<Rightarrow> substitutionLessonMTM t' = substitutionLessonMTM t)"
    by blast
qed

text \<open>Updates that set the date as well succeed, and replace or keep the links.\<close>

lemma update_links_runs:
  "updateMovedLesson demoEnv (Some ''M1'') bodyRelink schoolDb = (Inr movedRelinked, relinkedDb)
   \<and> map mll_lessonId
        (filter (\<lambda>l. mll_movedLessonId l = ''M1'') (movedLessonLessonMTM relinkedDb)) = [''L3'']
   \<and> updateMovedLesson demoEnv (Some ''M1'') bodyRedate schoolDb = (Inr movedRelinked, redatedDb)
   \<and> movedLessonLessonMTM redatedDb = movedLessonLessonMTM schoolDb
   \<and> updateSubstitution demoEnv (Some ''SUB1'') subBodyRelink schoolDb
       = (Inr (Some subRelinked), subRelinkedDb)
   \<and> map sl_lessonId
        (filter (\<lambda>l. sl_substitutionId l = ''SUB1'') (substitutionLessonMTM subRelinkedDb))
       = [''L2'', ''L3'']
   \<and> updateSubstitution demoEnv (Some ''SUB1'') subBodyRedate schoolDb
       = (Inr (Some subRelinked), subRedatedDb)
   \<and> substitutionLessonMTM subRedatedDb = substitutionLessonMTM schoolDb
   \<and> primaryKeys relinkedDb
   \<and> (\<exists>views. getAllMovedLessons noFaults relinkedDb = Inr views
          \<and> map (\<lambda>v. (ml_id (v_movedLesson v), v_lessons v)) views
              = [(''M1'', [''L3'']), (''M0'', [''L2''])])
   \<and> primaryKeys subRelinkedDb
   \<and> (\<exists>views. getAllSubstitutions noFaults subRelinkedDb = Inr views
          \<and> map (\<lambda>v. (sub_id (sv_substitution v), sv_lessons v)) views
              = [(''SUB1'', [''L2'', ''L3''])])"
proof -
  note store =
    schoolDb_def movedToday_def movedYesterday_def subToday_def periodP1_def roomR1_def
    teacherT1_def teacherT2_def lessonA_def lessonB_def lessonC_def ttOld_def ttNext_def
    movedRelinked_def relinkedDb_def redatedDb_def subRelinked_def subRelinkedDb_def
    subRedatedDb_def
  note request =
    noFaults_def demoEnv_def demoPgDate_def demoJsDateValid_def bodyRelink_def bodyRedate_def
    subBodyRelink_def subBodyRedate_def
  note steps =
    retA_def throwA_def bindA_def catchA_def transaction_def whenA_def query_def exec_def
    liftA_def ifPresent_def firstRow_def requireParam_def selectIn_def
  note moved =
    updateMovedLesson_def ensurePeriodExists_def ensureDayDefinitionExists_def
    ensureClassroomExists_def ensureLessonsExist_def normalizeOptionalString_def
    normalizeOptionalStringArray_def validateMovedLessonReferences_def dateColumn_def
    textColumn_def insertMovedLinks_def deleteMovedLinks_def setDate_def setText_def
    updateMovedLessonRow_def
  note sub =
    updateSubstitution_def countLessons_def insertSubLinks_def deleteSubLinks_def
    updateSubstitutionRow_def
  note joins =
    leftJoin_def eqCol_def arrayAgg_def groupBy_def movedJoinRows_def movedKey_def
    movedLinkId_def movedView_def movedViews_def subJoinRows_def subKey_def subLinkId_def
    subView_def subViews_def
  have r1: "updateMovedLesson demoEnv (Some ''M1'') bodyRelink schoolDb
              = (Inr movedRelinked, relinkedDb)"
    by (simp add: moved steps store request Let_def del: set_filter)
  have r2: "updateMovedLesson demoEnv (Some ''M1'') bodyRedate schoolDb
              = (Inr movedRelinked, redatedDb)"
    by (simp add: moved steps store request Let_def del: set_filter)
  have r3: "updateSubstitution demoEnv (Some ''SUB1'') subBodyRelink schoolDb
              = (Inr (Some subRelinked), subRelinkedDb)"
    by (simp add: sub steps store request Let_def del: set_filter)
  have r4: "updateSubstitution demoEnv (Some ''SUB1'') subBodyRedate schoolDb
              = (Inr (Some subRelinked), subRedatedDb)"
    by (simp add: sub steps store request Let_def del: set_filter)
  have c1: "map mll_lessonId
        (filter (\<lambda>l. mll_movedLessonId l = ''M1'') (movedLessonLessonMTM relinkedDb)) = [''L3'']"
    using update_links_when_ok [THEN conjunct1, rule_format, OF r1]
    by (simp add: bodyRelink_def)
  have c2: "movedLessonLessonMTM redatedDb = movedLessonLessonMTM schoolDb"
    using update_links_when_ok [THEN conjunct1, rule_format, OF r2]
    by (simp add: bodyRedate_def)
  have c3: "map sl_lessonId
        (filter (\<lambda>l. sl_substitutionId l = ''SUB1'') (substitutionLessonMTM subRelinkedDb))
       = [''L2'', ''L3'']"
    using update_links_when_ok [THEN conjunct2, rule_format, OF r3]
    by (simp add: subBodyRelink_def)
  have c4: "substitutionLessonMTM subRedatedDb = substitutionLessonMTM schoolDb"
    using update_links_when_ok [THEN conjunct2, rule_format, OF r4]
    by (simp add: subBodyRedate_def)
  have k: "primaryKeys relinkedDb" "primaryKeys subRelinkedDb"
    by (simp_all add: primaryKeys_def store)
  have v1: "\<exists>views. getAllMovedLessons noFaults relinkedDb = Inr views
          \<and> map (\<lambda>v. (ml_id (v_movedLesson v), v_lessons v)) views
              = [(''M1'', [''L3'']), (''M0'', [''L2''])]"
    by (simp add: getAllMovedLessons_def joins store noFaults_def)
  have v2: "\<exists>views. getAllSubstitutions noFaults subRelinkedDb = Inr views
          \<and> map (\<lambda>v. (sub_id (sv_substitution v), sv_lessons v)) views
              = [(''SUB1'', [''L2'', ''L3''])]"
    by (simp add: getAllSubstitutions_def joins store noFaults_def)
  from r1 r2 r3 r4 c1 c2 c3 c4 k v1 v2 show ?thesis by blast
qed

subsection \<open>An update of the links alone\<close>

lemma updateMovedLesson_nothing_to_set:
  "updateMovedLesson e ident
     \<lparr>b_startingPeriod = JUndefined, b_startingDay = JUndefined, b_room = JUndefined,
      b_date = JUndefined, b_lessonIds = ls\<rparr> s
   = (Inl (HTTPException INTERNAL_SERVER_ERROR ''Failed to update moved lesson''), s)"
proof -
  let ?body = "\<lparr>b_startingPeriod = JUndefined, b_startingDay = JUndefined, b_room = JUndefined,
      b_date = JUndefined, b_lessonIds = ls\<rparr>"
  obtain x s1 where v: "validateMovedLessonReferences e ?body s = (x, s1)"
    by (cases "validateMovedLessonReferences e ?body s")
  then have "s1 = s" by (rule validate_keeps_store)
  with v show ?thesis
    by (simp add: updateMovedLesson_def updateMovedLessonRow_def catchA_def bindA_def
        requireParam_def throwA_def retA_def split: option.split sum.split)
qed

lemma updateSubstitution_nothing_to_set:
  "updateSubstitution e ident \<lparr>sb_date = None, sb_lessonIds = ids, sb_substituter = None\<rparr> s
   = (Inl (HTTPException INTERNAL_SERVER_ERROR ''Failed to update substitution''), s)"
  by (simp add: updateSubstitution_def updateSubstitutionRow_def countLessons_def catchA_def
      bindA_def transaction_def requireParam_def query_def whenA_def throwA_def retA_def
      split: option.split)

lemma updateSubstitution_throws_only:
  "fst (updateSubstitution e ident body s) = Inl z
   \<Longrightarrow> z = HTTPException INTERNAL_SERVER_ERROR ''Failed to update substitution''"
  unfolding updateSubstitution_def by (rule catchA_throws_only)

lemma updateSubstitution_no_rows_to_insert:
  "updateSubstitution e ident \<lparr>sb_date = d, sb_lessonIds = Some [], sb_substituter = t\<rparr> s
   = (Inl (HTTPException INTERNAL_SERVER_ERROR ''Failed to update substitution''), s)"
proof -
  let ?body = "\<lparr>sb_date = d, sb_lessonIds = Some [], sb_substituter = t\<rparr>"
  have no: "updateSubstitution e ident ?body s \<noteq> (Inr r, s')" for r s'
    unfolding updateSubstitution_def
    by (auto simp: bindA_Inr_iff catchA_Inr_iff transaction_Inr_iff retA_Inr_iff
        throwA_Inr_iff whenA_Inr_iff query_Inr_iff requireParam_Inr_iff countLessons_def
        insertSubLinks_def split: option.splits if_splits)
  obtain x s1 where u: "updateSubstitution e ident ?body s = (x, s1)"
    by (cases "updateSubstitution e ident ?body s")
  with no obtain err where x: "x = Inl err" by (cases x) auto
  have "s1 = s"
    using atomicA_D [OF updateSubstitution_atomic, of e ident ?body s err] u x by simp
  moreover have "err = HTTPException INTERNAL_SERVER_ERROR ''Failed to update substitution''"
    using updateSubstitution_throws_only [of e ident ?body s err] u x by simp
  ultimately show ?thesis using u x by simp
qed

text \<open>
  Claim C7: updating an existing override with a lesson-id list replaces its links (a read
  yields the new list, with no link to a lesson linked before), and an update without the
  field leaves the links as they were.

  The body of the update carries the list of lesson ids and no other field, as in the round
  trip of the specification. The handler first updates the row, with every value to set
  undefined; the query builder throws on that, and the \<^verbatim>\<open>catch\<close> block answers with an
  internal error. This holds of \<^verbatim>\<open>updateMovedLesson\<close> and of \<^verbatim>\<open>updateSubstitution\<close>,
  for every list, every id, every store and whatever storage calls fail. The links are not
  replaced: the moved lesson \<open>M1\<close> keeps its link to \<open>L1\<close> and the substitution
  \<open>SUB1\<close> its link to \<open>L1\<close>, which the reads return. \<^verbatim>\<open>updateSubstitution\<close> fails in
  the same way on every body whose list is empty, at the insert of no link rows;
  \<^verbatim>\<open>updateMovedLesson\<close> tests the length of the list before its insert, and removes the
  links. When the body sets the date as well, both handlers replace the links.
\<close>

theorem update_of_links_alone_fails:
  "updateMovedLesson e ident
     \<lparr>b_startingPeriod = JUndefined, b_startingDay = JUndefined, b_room = JUndefined,
      b_date = JUndefined, b_lessonIds = ls\<rparr> s
     = (Inl (HTTPException INTERNAL_SERVER_ERROR ''Failed to update moved lesson''), s)
   \<and> updateSubstitution e ident \<lparr>sb_date = None, sb_lessonIds = ids, sb_substituter = None\<rparr> s
     = (Inl (HTTPException INTERNAL_SERVER_ERROR ''Failed to update substitution''), s)
   \<and> updateSubstitution e ident \<lparr>sb_date = d, sb_lessonIds = Some [], sb_substituter = t\<rparr> s
     = (Inl (HTTPException INTERNAL_SERVER_ERROR ''Failed to update substitution''), s)
   \<and> updateMovedLesson demoEnv (Some ''M1'') bodyLinksOnly schoolDb
     = (Inl (HTTPException INTERNAL_SERVER_ERROR ''Failed to update moved lesson''), schoolDb)
   \<and> updateSubstitution demoEnv (Some ''SUB1'') subBodyLinksOnly schoolDb
     = (Inl (HTTPException INTERNAL_SERVER_ERROR ''Failed to update substitution''), schoolDb)
   \<and> updateSubstitution demoEnv (Some ''SUB1'') subBodyUnlink schoolDb
     = (Inl (HTTPException INTERNAL_SERVER_ERROR ''Failed to update substitution''), schoolDb)
   \<and> (\<exists>views. getAllMovedLessons noFaults schoolDb = Inr views
          \<and> map (\<lambda>v. (ml_id (v_movedLesson v), v_lessons v)) views
              = [(''M1'', [''L1'']), (''M0'', [''L2''])])
   \<and> (\<exists>views. getAllSubstitutions noFaults schoolDb = Inr views
          \<and> map (\<lambda>v. (sub_id (sv_substitution v), sv_lessons v)) views
              = [(''SUB1'', [''L1''])])
   \<and> updateMovedLesson demoEnv (Some ''M1'') bodyUnlink schoolDb = (Inr movedRelinked, unlinkedDb)
   \<and> updateMovedLesson demoEnv (Some ''M1'') bodyRelink schoolDb = (Inr movedRelinked, relinkedDb)
   \<and> updateSubstitution demoEnv (Some ''SUB1'') subBodyRelink schoolDb
     = (Inr (Some subRelinked), subRelinkedDb)"
proof -
  note store =
    schoolDb_def movedToday_def movedYesterday_def subToday_def periodP1_def roomR1_def
    teacherT1_def teacherT2_def lessonA_def lessonB_def lessonC_def ttOld_def ttNext_def
    movedRelinked_def relinkedDb_def unlinkedDb_def subRelinked_def subRelinkedDb_def
  note request =
    noFaults_def demoEnv_def demoPgDate_def demoJsDateValid_def bodyRelink_def bodyUnlink_def
    subBodyRelink_def
  note steps =
    retA_def throwA_def bindA_def catchA_def transaction_def whenA_def query_def exec_def
    liftA_def ifPresent_def firstRow_def requireParam_def selectIn_def
  note moved =
    updateMovedLesson_def ensurePeriodExists_def ensureDayDefinitionExists_def
    ensureClassroomExists_def ensureLessonsExist_def normalizeOptionalString_def
    normalizeOptionalStringArray_def validateMovedLessonReferences_def dateColumn_def
    textColumn_def insertMovedLinks_def deleteMovedLinks_def setDate_def setText_def
    updateMovedLessonRow_def
  note sub =
    updateSubstitution_def countLessons_def insertSubLinks_def deleteSubLinks_def
    updateSubstitutionRow_def
  note joins =
    leftJoin_def eqCol_def arrayAgg_def groupBy_def movedJoinRows_def movedKey_def
    movedLinkId_def movedView_def movedViews_def subJoinRows_def subKey_def subLinkId_def
    subView_def subViews_def
  have g1: "updateMovedLesson e ident
     \<lparr>b_startingPeriod = JUndefined, b_startingDay = JUndefined, b_room = JUndefined,
      b_date = JUndefined, b_lessonIds = ls\<rparr> s
     = (Inl (HTTPException INTERNAL_SERVER_ERROR ''Failed to update moved lesson''), s)"
    by (rule updateMovedLesson_nothing_to_set)
  have g2: "updateSubstitution e ident
       \<lparr>sb_date = None, sb_lessonIds = ids, sb_substituter = None\<rparr> s
     = (Inl (HTTPException INTERNAL_SERVER_ERROR ''Failed to update substitution''), s)"
    by (rule updateSubstitution_nothing_to_set)
  have g3: "updateSubstitution e ident
       \<lparr>sb_date = d, sb_lessonIds = Some [], sb_substituter = t\<rparr> s
     = (Inl (HTTPException INTERNAL_SERVER_ERROR ''Failed to update substitution''), s)"
    by (rule updateSubstitution_no_rows_to_insert)
  have c1: "updateMovedLesson demoEnv (Some ''M1'') bodyLinksOnly schoolDb
     = (Inl (HTTPException INTERNAL_SERVER_ERROR ''Failed to update moved lesson''), schoolDb)"
    unfolding bodyLinksOnly_def by (rule updateMovedLesson_nothing_to_set)
  have c2: "updateSubstitution demoEnv (Some ''SUB1'') subBodyLinksOnly schoolDb
     = (Inl (HTTPException INTERNAL_SERVER_ERROR ''Failed to update substitution''), schoolDb)"
    unfolding subBodyLinksOnly_def by (rule updateSubstitution_nothing_to_set)
  have c3: "updateSubstitution demoEnv (Some ''SUB1'') subBodyUnlink schoolDb
     = (Inl (HTTPException INTERNAL_SERVER_ERROR ''Failed to update substitution''), schoolDb)"
    unfolding subBodyUnlink_def by (rule updateSubstitution_no_rows_to_insert)
  have v1: "\<exists>views. getAllMovedLessons noFaults schoolDb = Inr views
          \<and> map (\<lambda>v. (ml_id (v_movedLesson v), v_lessons v)) views
              = [(''M1'', [''L1'']), (''M0'', [''L2''])]"
    by (simp add: getAllMovedLessons_def joins store noFaults_def)
  have v2: "\<exists>views. getAllSubstitutions noFaults schoolDb = Inr views
          \<and> map (\<lambda>v. (sub_id (sv_substitution v), sv_lessons v)) views
              = [(''SUB1'', [''L1''])]"
    by (simp add: getAllSubstitutions_def joins store noFaults_def)
  have r1: "updateMovedLesson demoEnv (Some ''M1'') bodyUnlink schoolDb
              = (Inr movedRelinked, unlinkedDb)"
    by (simp add: moved steps store request Let_def del: set_filter)
  have r2: "updateMovedLesson demoEnv (Some ''M1'') bodyRelink schoolDb
              = (Inr movedRelinked, relinkedDb)"
    by (simp add: moved steps store request Let_def del: set_filter)
  have r3: "updateSubstitution demoEnv (Some ''SUB1'') subBodyRelink schoolDb
              = (Inr (Some subRelinked), subRelinkedDb)"
    by (simp add: sub steps store request Let_def del: set_filter)
  from g1 g2 g3 c1 c2 c3 v1 v2 r1 r2 r3 show ?thesis by blast
qed

end
